theory Spec2Isabelle
  imports Main
begin

section \<open>ClickSpeak: the native launcher and the runtime provisioner\<close>

text \<open>
  Two programs are embedded here: \<^verbatim>\<open>src/launcher.c\<close> (the native launcher that embeds the
  Python interpreter) and the functions \<^verbatim>\<open>python_is_supported\<close>, \<^verbatim>\<open>resolve_host_python\<close>,
  \<^verbatim>\<open>runtime_is_ready\<close> and \<^verbatim>\<open>ensure_runtime\<close> of \<^verbatim>\<open>scripts/install_app.sh\<close>.

  Everything outside the two programs (the file system, the process environment, the
  CPython API, the external commands) is a field of a record describing the world a run
  happens in. Blocking calls (\<^verbatim>\<open>waitpid\<close>, \<^verbatim>\<open>PyRun_SimpleString\<close>) are modelled at the
  moment they return. A call whose result the program tests can fail in the model; a call
  whose result the program ignores (\<^verbatim>\<open>setenv\<close>, \<^verbatim>\<open>chdir\<close>, \<^verbatim>\<open>PyList_New\<close>) is modelled by its
  success, \<^verbatim>\<open>PyList_SetItem\<close> apart, whose failure out of range is part of the model.
\<close>

subsection \<open>C strings\<close>

text \<open>
  \<^verbatim>\<open>snprintf(buf, n, ...)\<close> stores at most \<open>n - 1\<close> bytes of the formatted text (and the
  terminating NUL); the launcher never looks at its return value, so a longer text is
  silently cut.
\<close>

definition snprintf :: "nat \<Rightarrow> string \<Rightarrow> string" where
  "snprintf n s = take (n - 1) s"

definition dquote :: string where
  "dquote = [CHR 0x22]"

definition newline :: string where
  "newline = [CHR 0x0A]"

text \<open>\<^verbatim>\<open>env && *env\<close>: the variable is set and its value is not the empty string.\<close>

fun set_and_nonempty :: "string option \<Rightarrow> bool" where
  "set_and_nonempty None = False"
| "set_and_nonempty (Some []) = False"
| "set_and_nonempty (Some (c # cs)) = True"

text \<open>
  \<^verbatim>\<open>slash = strrchr(buf, '/'); if (slash) *slash = '\0';\<close> cuts the string at its last
  slash, and leaves a string without a slash as it is.
\<close>

definition cut_at_last_slash :: "string \<Rightarrow> string" where
  "cut_at_last_slash buf =
     (if CHR ''/'' \<in> set buf
      then rev (tl (dropWhile (\<lambda>c. c \<noteq> CHR ''/'') (rev buf)))
      else buf)"

subsection \<open>The embedded interpreter's interface\<close>

text \<open>
  \<^verbatim>\<open>PyStatus\<close>: either no exception, or an exception (an error or an exit request) whose
  \<^verbatim>\<open>err_msg\<close> may be \<^verbatim>\<open>NULL\<close>.
\<close>

datatype pystatus = PyStatus_Ok | PyStatus_Exc "string option"

fun PyStatus_Exception :: "pystatus \<Rightarrow> bool" where
  "PyStatus_Exception PyStatus_Ok = False"
| "PyStatus_Exception (PyStatus_Exc m) = True"

fun err_msg :: "pystatus \<Rightarrow> string option" where
  "err_msg PyStatus_Ok = None"
| "err_msg (PyStatus_Exc m) = m"

text \<open>The fields of \<^verbatim>\<open>PyConfig\<close> that the launcher writes.\<close>

record pyconfig =
  executable :: "string option"
  parse_argv :: int
  site_import :: int

text \<open>\<^verbatim>\<open>PyConfig_InitPythonConfig\<close>: no executable set, argv parsing and site import on.\<close>

definition PyConfig_InitPythonConfig :: pyconfig where
  "PyConfig_InitPythonConfig = \<lparr>executable = None, parse_argv = 1, site_import = 1\<rparr>"

text \<open>
  A Python list of \<^verbatim>\<open>str\<close> objects; \<open>None\<close> is a slot that is still \<^verbatim>\<open>NULL\<close>. A \<^verbatim>\<open>str\<close>
  decoded from the file-system encoding is identified with the bytes it was decoded from
  (the decoding is injective: undecodable bytes are kept as surrogate escapes).
\<close>

type_synonym pylist = "string option list"

definition PyList_New :: "nat \<Rightarrow> pylist" where
  "PyList_New n = replicate n None"

text \<open>
  \<^verbatim>\<open>PyList_SetItem\<close> stores the item when the index is in range; out of range it returns
  \<open>-1\<close> and leaves the list as it is. The launcher ignores the return value.
\<close>

definition PyList_SetItem :: "pylist \<Rightarrow> nat \<Rightarrow> string \<Rightarrow> pylist" where
  "PyList_SetItem l i v = (if i < length l then l[i := Some v] else l)"

subsection \<open>The world of a launch, and what a launch does to it\<close>

record world =
  envp :: "string \<Rightarrow> string option"
  access_F_OK :: "string \<Rightarrow> bool"
  file_content :: "string \<Rightarrow> string option"
  interpreter_reports :: "string \<Rightarrow> string option"
  PATH_MAX :: nat
  fork_succeeds :: bool
  NSGetExecutablePath :: "nat \<Rightarrow> string option"
  Py_DecodeLocale :: "string \<Rightarrow> string option"
  PyConfig_SetString :: "string \<Rightarrow> pystatus"
  Py_InitializeFromConfig :: "(string \<Rightarrow> string option) \<Rightarrow> pyconfig \<Rightarrow> pystatus"
  PyRun_SimpleString :: "pylist \<Rightarrow> string \<Rightarrow> int"

text \<open>
  \<^item> \<open>envp\<close>: the environment the process starts with (\<open>None\<close>: the variable is unset);
  \<^item> \<open>access_F_OK p\<close>: \<^verbatim>\<open>access(p, F_OK) == 0\<close>;
  \<^item> \<open>file_content p\<close>, \<open>interpreter_reports p\<close>: what the file at \<open>p\<close> holds and which
    version the interpreter at \<open>p\<close> reports when it is run. The launcher has no call that
    reads either: the fields are here so that properties can speak about them;
  \<^item> \<open>PATH_MAX\<close>: the constant of \<^verbatim>\<open><limits.h>\<close>, which is not part of the repository;
  \<^item> \<open>fork_succeeds\<close>: \<^verbatim>\<open>fork()\<close> returns a positive pid in the parent;
  \<^item> \<open>NSGetExecutablePath n\<close>: the path stored in a buffer of \<open>n\<close> bytes when
    \<^verbatim>\<open>_NSGetExecutablePath\<close> returns 0;
  \<^item> the remaining fields are the CPython calls whose results the launcher branches on.
    \<open>PyRun_SimpleString l c\<close> is the result of running the code \<open>c\<close> when \<^verbatim>\<open>sys.argv\<close> is the list
    \<open>l\<close> that the launcher has built: in CPython the call returns \<open>-1\<close> without running
    anything when an earlier call has left an exception pending, as an out-of-range
    \<^verbatim>\<open>PyList_SetItem\<close> does.
\<close>

datatype event =
    Stderr string
  | Execlp string "string list"
  | Waitpid
  | Chdir string
  | Initialize pyconfig
  | Set_sys_argv pylist
  | Run_string string
  | Finalize

text \<open>
  The state of the running process: its environment and the effects it has had so far.
  \<open>Execlp f args\<close> is the child process replacing itself by \<open>f\<close>.
\<close>

record proc =
  environ :: "string \<Rightarrow> string option"
  events :: "event list"

definition setenv :: "string \<Rightarrow> string \<Rightarrow> proc \<Rightarrow> proc" where
  "setenv name v p = p\<lparr>environ := (environ p)(name := Some v)\<rparr>"

definition emit :: "event list \<Rightarrow> proc \<Rightarrow> proc" where
  "emit es p = p\<lparr>events := events p @ es\<rparr>"

subsection \<open>launcher.c: helpers\<close>

definition dialog_script :: "string \<Rightarrow> string" where
  "dialog_script message =
     snprintf 4096
       (''display dialog '' @ dquote @ message @ dquote
        @ '' with title '' @ dquote @ ''ClickSpeak Error'' @ dquote
        @ '' buttons '' @ dquote @ ''OK'' @ dquote
        @ '' default button '' @ dquote @ ''OK'' @ dquote)"

text \<open>
  \<^verbatim>\<open>show_error\<close>: the child (\<^verbatim>\<open>pid == 0\<close>) executes \<^verbatim>\<open>osascript -e script\<close>, the parent
  (\<^verbatim>\<open>pid > 0\<close>) waits for it; when \<^verbatim>\<open>fork\<close> fails nothing happens. Nothing is written to
  the standard error stream here.
\<close>

definition show_error :: "world \<Rightarrow> string \<Rightarrow> proc \<Rightarrow> proc" where
  "show_error w message p =
     (if fork_succeeds w
      then emit [Execlp ''osascript'' [''osascript'', ''-e'', dialog_script message], Waitpid] p
      else p)"

text \<open>What \<^verbatim>\<open>show_error\<close> adds to the effects of the process.\<close>

definition dialog_events :: "world \<Rightarrow> string \<Rightarrow> event list" where
  "dialog_events w message =
     (if fork_succeeds w
      then [Execlp ''osascript'' [''osascript'', ''-e'', dialog_script message], Waitpid]
      else [])"

definition suffixes :: "string list" where
  "suffixes =
     [''/projects/clickspeak'',
      ''/clickspeak'',
      ''/work/clickspeak'',
      ''/Workspace/clickspeak'',
      ''/Documents/clickspeak'']"

fun probe_suffixes :: "world \<Rightarrow> string \<Rightarrow> string list \<Rightarrow> string option" where
  "probe_suffixes w home [] = None"
| "probe_suffixes w home (s # ss) =
     (let buf = snprintf (PATH_MAX w) (home @ s @ ''/pyproject.toml'')
      in if access_F_OK w buf then Some (cut_at_last_slash buf)
         else probe_suffixes w home ss)"

definition find_project_dir :: "world \<Rightarrow> proc \<Rightarrow> string option" where
  "find_project_dir w p =
     (let env = environ p ''CLICKSPEAK_PROJECT_DIR''
      in if set_and_nonempty env then env
         else (case environ p ''HOME'' of
                 None \<Rightarrow> None
               | Some home \<Rightarrow> probe_suffixes w home suffixes))"

definition get_runtime_dir :: "world \<Rightarrow> proc \<Rightarrow> string option" where
  "get_runtime_dir w p =
     (let env = environ p ''CLICKSPEAK_RUNTIME_DIR''
      in if set_and_nonempty env then env
         else (case environ p ''HOME'' of
                 None \<Rightarrow> None
               | Some home \<Rightarrow>
                   Some (snprintf (PATH_MAX w)
                           (home @ ''/Library/Application Support/ClickSpeak/runtime''))))"

subsection \<open>launcher.c: main\<close>

definition msg_no_home :: string where
  "msg_no_home = ''HOME environment variable is not set.''"

definition msg_no_runtime_dir :: string where
  "msg_no_runtime_dir = ''Could not determine ClickSpeak runtime directory.''"

definition msg_runtime_not_found :: string where
  "msg_runtime_not_found = ''ClickSpeak runtime not found. Re-run: bash scripts/install_app.sh''"

definition msg_init_failed :: string where
  "msg_init_failed = ''Python initialization failed. Re-run: bash scripts/install_app.sh''"

text \<open>Lines 97-103, the check called ValidateRuntime: does the marker path exist?\<close>

definition marker_path :: "world \<Rightarrow> string \<Rightarrow> string" where
  "marker_path w runtime_dir = snprintf (PATH_MAX w) (runtime_dir @ ''/.clickspeak-runtime'')"

definition validate_runtime :: "world \<Rightarrow> string \<Rightarrow> bool" where
  "validate_runtime w runtime_dir = access_F_OK w (marker_path w runtime_dir)"

text \<open>Lines 105-138: the environment of the embedded interpreter.\<close>

definition pythonpath :: "string option \<Rightarrow> string \<Rightarrow> string" where
  "pythonpath project_dir runtime_dir =
     (case project_dir of
        Some pd \<Rightarrow>
          snprintf 8192 (pd @ ''/src:'' @ runtime_dir @ ''/lib/python3.12/site-packages'')
      | None \<Rightarrow>
          snprintf 8192 (runtime_dir @ ''/lib/python3.12/site-packages''))"

definition build_environment :: "world \<Rightarrow> string \<Rightarrow> string option \<Rightarrow> proc \<Rightarrow> proc" where
  "build_environment w runtime_dir project_dir p0 =
     (let p1 = setenv ''PYTHONUNBUFFERED'' ''1'' p0;
          p2 = setenv ''PYTHONNOUSERSITE'' ''1'' p1;
          p3 = setenv ''PYTHONFAULTHANDLER'' ''1'' p2;
          p4 = setenv ''CLICKSPEAK_BUNDLE_IDENTIFIER'' ''com.lamosty.clickspeak'' p3;
          p5 = setenv ''CLICKSPEAK_APP_NAME'' ''ClickSpeak'' p4;
          p6 = setenv ''CLICKSPEAK_RUNTIME_DIR'' runtime_dir p5;
          p7 = (case NSGetExecutablePath w (PATH_MAX w) of
                  Some exe_path \<Rightarrow> setenv ''CLICKSPEAK_APP_PATH'' exe_path p6
                | None \<Rightarrow> p6);
          old_path = environ p7 ''PATH'';
          new_path = snprintf 8192
                       (''/opt/homebrew/bin:/usr/local/bin:''
                        @ (case old_path of Some op \<Rightarrow> op | None \<Rightarrow> ''/usr/bin:/bin''));
          p8 = setenv ''PATH'' new_path p7;
          p9 = (case project_dir of
                  Some pd \<Rightarrow> emit [Chdir pd] p8
                | None \<Rightarrow> p8)
      in setenv ''PYTHONPATH'' (pythonpath project_dir runtime_dir) p9)"

text \<open>Lines 172-186: \<^verbatim>\<open>sys.argv\<close> from the C \<^verbatim>\<open>argv\<close>; \<^verbatim>\<open>argc\<close> is the length of \<open>argv\<close>.\<close>

definition build_sys_argv :: "string list \<Rightarrow> pylist" where
  "build_sys_argv argv =
     (let argc = length argv;
          argv_list = fold (\<lambda>i l. PyList_SetItem l i (argv ! i)) [0..<argc] (PyList_New argc)
      in PyList_SetItem argv_list 0 ''ClickSpeak'')"

definition entry_code :: string where
  "entry_code = ''from clickspeak.__main__ import main'' @ newline @ ''main()'' @ newline"

text \<open>
  Lines 197-202, the label \<^verbatim>\<open>fail\<close>. The line for the standard error stream is
  \<^verbatim>\<open>"ClickSpeak: Python initialization failed: %s\n"\<close> with
  \<^verbatim>\<open>status.err_msg ? status.err_msg : "(unknown error)"\<close>.
\<close>

definition init_failed_line :: "string option \<Rightarrow> string" where
  "init_failed_line m =
     ''ClickSpeak: Python initialization failed: ''
     @ (case m of Some msg \<Rightarrow> msg | None \<Rightarrow> ''(unknown error)'') @ newline"

definition fail :: "world \<Rightarrow> pystatus \<Rightarrow> proc \<Rightarrow> int \<times> proc" where
  "fail w status p =
     (let p1 = emit [Stderr (init_failed_line (err_msg status))] p
      in (1, show_error w msg_init_failed p1))"

text \<open>Lines 161-195: initialisation with the finished configuration, then dispatch.\<close>

definition init_and_run :: "world \<Rightarrow> string list \<Rightarrow> pyconfig \<Rightarrow> proc \<Rightarrow> int \<times> proc" where
  "init_and_run w argv config0 p =
     (let config = config0\<lparr>parse_argv := 0, site_import := 1\<rparr>;
          status = Py_InitializeFromConfig w (environ p) config;
          p1 = emit [Initialize config] p
      in if PyStatus_Exception status then fail w status p1
         else
           (let argv_list = build_sys_argv argv;
                p2 = emit [Set_sys_argv argv_list] p1;
                rc = PyRun_SimpleString w argv_list entry_code;
                p3 = emit [Run_string entry_code, Finalize] p2
            in (if rc \<noteq> 0 then 1 else 0, p3)))"

text \<open>
  Lines 140-159: the interpreter is told that its executable is the runtime's. The result
  is the configuration, or the status with which the launcher jumps to \<^verbatim>\<open>fail\<close>.
\<close>

definition venv_python :: "world \<Rightarrow> string \<Rightarrow> string" where
  "venv_python w runtime_dir = snprintf (PATH_MAX w) (runtime_dir @ ''/bin/python3'')"

definition configure :: "world \<Rightarrow> string \<Rightarrow> pystatus + pyconfig" where
  "configure w runtime_dir =
     (let config = PyConfig_InitPythonConfig
      in case Py_DecodeLocale w (venv_python w runtime_dir) of
           Some w_exe \<Rightarrow>
             (let status = PyConfig_SetString w w_exe
              in if PyStatus_Exception status then Inl status
                 else Inr (config\<lparr>executable := Some w_exe\<rparr>))
         | None \<Rightarrow> Inr config)"

definition configure_and_run :: "world \<Rightarrow> string list \<Rightarrow> string \<Rightarrow> proc \<Rightarrow> int \<times> proc" where
  "configure_and_run w argv runtime_dir p =
     (case configure w runtime_dir of
        Inl status \<Rightarrow> fail w status p
      | Inr config \<Rightarrow> init_and_run w argv config p)"

text \<open>What a run wrote to the standard error stream.\<close>

fun stderr_lines :: "event list \<Rightarrow> string list" where
  "stderr_lines [] = []"
| "stderr_lines (Stderr m # es) = m # stderr_lines es"
| "stderr_lines (e # es) = stderr_lines es"

text \<open>The process as \<^verbatim>\<open>main\<close> finds it.\<close>

definition start :: "world \<Rightarrow> proc" where
  "start w = \<lparr>environ = envp w, events = []\<rparr>"

definition main :: "world \<Rightarrow> string list \<Rightarrow> int \<times> proc" where
  "main w argv =
     (let p0 = start w
      in case environ p0 ''HOME'' of
           None \<Rightarrow> (1, show_error w msg_no_home p0)
         | Some home \<Rightarrow>
             (let runtime_dir = get_runtime_dir w p0;
                  project_dir = find_project_dir w p0
              in case runtime_dir of
                   None \<Rightarrow> (1, show_error w msg_no_runtime_dir p0)
                 | Some rd \<Rightarrow>
                     if \<not> validate_runtime w rd
                     then (1, show_error w msg_runtime_not_found p0)
                     else configure_and_run w argv rd
                            (build_environment w rd project_dir p0)))"


section \<open>install_app.sh: the runtime provisioner\<close>

subsection \<open>Shell words\<close>

definition REQUIRED_PYTHON_MAJOR :: string where
  "REQUIRED_PYTHON_MAJOR = ''3''"

definition REQUIRED_PYTHON_MINOR :: string where
  "REQUIRED_PYTHON_MINOR = ''12''"

definition required_version :: string where
  "required_version = REQUIRED_PYTHON_MAJOR @ ''.'' @ REQUIRED_PYTHON_MINOR"

definition RUNTIME_MARKER_FILE :: string where
  "RUNTIME_MARKER_FILE = ''.clickspeak-runtime''"

text \<open>
  A command substitution \<^verbatim>\<open>$(...)\<close> is the command's output without its NUL bytes (the
  shell drops them while it reads) and without the newlines at its end.
\<close>

definition cmd_subst :: "string \<Rightarrow> string" where
  "cmd_subst out =
     rev (dropWhile (\<lambda>c. c = CHR 0x0A) (rev (filter (\<lambda>c. c \<noteq> CHR 0x00) out)))"

text \<open>
  The builtin \<^verbatim>\<open>echo\<close> with one argument prints the argument and a newline, unless the
  argument is one of its options (a dash followed by letters out of \<^verbatim>\<open>n\<close>, \<^verbatim>\<open>e\<close>, \<^verbatim>\<open>E\<close>):
  then it prints an empty line, or nothing at all with \<^verbatim>\<open>n\<close> among the letters.
\<close>

fun echo_option :: "string \<Rightarrow> bool" where
  "echo_option (c # d # ds) =
     (c = CHR ''-'' \<and> list_all (\<lambda>x. x = CHR ''n'' \<or> x = CHR ''e'' \<or> x = CHR ''E'') (d # ds))"
| "echo_option cs = False"

definition echo :: "string \<Rightarrow> string" where
  "echo a = (if echo_option a then (if CHR ''n'' \<in> set a then [] else newline)
             else a @ newline)"

subsection \<open>The host and its file system\<close>

text \<open>
  What the script reads from its surroundings and never changes: the variables
  \<^verbatim>\<open>HOME\<close> and \<^verbatim>\<open>CLICKSPEAK_HOST_PYTHON\<close> (\<open>None\<close>: unset), the directory of the checkout,
  and the output of \<^verbatim>\<open>command -v name\<close> (empty when the name is not found).
\<close>

record host =
  HOME :: string
  PROJECT_DIR :: string
  CLICKSPEAK_HOST_PYTHON :: "string option"
  command_v :: "string \<Rightarrow> string"

text \<open>
  The file system as the script observes it:
  \<^item> \<open>test_x p\<close>: \<^verbatim>\<open>[ -x p ]\<close>; \<open>test_f p\<close>: \<^verbatim>\<open>[ -f p ]\<close>;
  \<^item> \<open>cat p\<close>: what \<^verbatim>\<open>cat p\<close> prints (the script discards its status);
  \<^item> \<open>python_version p\<close>: exit status and output of the function \<^verbatim>\<open>python_version\<close>, which
    runs the interpreter at \<open>p\<close> to print its \<^verbatim>\<open>major.minor\<close>.
\<close>

record fs =
  test_x :: "string \<Rightarrow> bool"
  test_f :: "string \<Rightarrow> bool"
  cat :: "string \<Rightarrow> string"
  python_version :: "string \<Rightarrow> int \<times> string"

text \<open>
  The programs of the rebuild.
  \<^item> \<open>venv\<close>, \<open>pip_upgrade\<close>, \<open>pip_install_e\<close>: \<^verbatim>\<open>python -m venv dir\<close>,
    \<^verbatim>\<open>python -m pip install --upgrade pip setuptools wheel\<close> and
    \<^verbatim>\<open>python -m pip install -e project\<close>, each with its exit status and the file system it
    leaves;
  \<^item> \<open>rm_rf_stops d s\<close>: \<open>None\<close> when \<^verbatim>\<open>rm -rf d\<close> removes the whole tree, \<open>Some R\<close> when it
    fails (or is killed) after it has removed the paths of the tree that are in \<open>R\<close>;
  \<^item> \<open>mkdir_p_stops d s\<close>: \<open>None\<close> when \<^verbatim>\<open>mkdir -p d\<close> succeeds, \<open>Some C\<close> when it fails
    after it has made those of the directories on the way to \<open>d\<close> that are in \<open>C\<close>;
  \<^item> \<open>echo_fails m s\<close>: \<^verbatim>\<open>echo\<close> cannot write the line \<open>m\<close> to the standard output;
  \<^item> \<open>redirect_fails f s\<close>: the shell cannot create or empty \<open>f\<close> for \<^verbatim>\<open>> f\<close>;
  \<^item> \<open>printf_stops f s\<close>: \<open>None\<close> when \<^verbatim>\<open>printf\<close> writes its line to \<open>f\<close>, \<open>Some k\<close> when it
    fails (or is killed) after it has written the first \<open>k\<close> bytes of the line.
\<close>

record tools =
  venv :: "string \<Rightarrow> string \<Rightarrow> fs \<Rightarrow> int \<times> fs"
  pip_upgrade :: "string \<Rightarrow> fs \<Rightarrow> int \<times> fs"
  pip_install_e :: "string \<Rightarrow> string \<Rightarrow> fs \<Rightarrow> int \<times> fs"
  rm_rf_stops :: "string \<Rightarrow> fs \<Rightarrow> (string \<Rightarrow> bool) option"
  mkdir_p_stops :: "string \<Rightarrow> fs \<Rightarrow> (string \<Rightarrow> bool) option"
  echo_fails :: "string \<Rightarrow> fs \<Rightarrow> bool"
  redirect_fails :: "string \<Rightarrow> fs \<Rightarrow> bool"
  printf_stops :: "string \<Rightarrow> fs \<Rightarrow> nat option"

definition RUNTIME_DIR :: "host \<Rightarrow> string" where
  "RUNTIME_DIR h = HOME h @ ''/Library/Application Support/ClickSpeak/runtime''"

definition RUNTIME_PYTHON :: "host \<Rightarrow> string" where
  "RUNTIME_PYTHON h = RUNTIME_DIR h @ ''/bin/python3''"

definition marker_file :: "host \<Rightarrow> string" where
  "marker_file h = RUNTIME_DIR h @ ''/'' @ RUNTIME_MARKER_FILE"

text \<open>What the script looks at, and what it runs to change the file system.\<close>

datatype probe =
    Test_x string
  | Test_f string
  | Cat string
  | Python_version string
  | Command_v string

datatype command =
    Rm_rf string
  | Mkdir_p string
  | Echo string
  | Venv string string
  | Pip_upgrade string
  | Pip_install_e string string
  | Truncate string
  | Write string string

subsection \<open>The readiness check\<close>

definition python_is_supported :: "fs \<Rightarrow> string \<Rightarrow> int \<times> probe list" where
  "python_is_supported s python_path =
     (if \<not> test_x s python_path then (1, [Test_x python_path])
      else
        (let (st, out) = python_version s python_path;
             version = cmd_subst out;
             probes = [Test_x python_path, Python_version python_path]
         in if st \<noteq> 0 then (1, probes)
            else (if version = required_version then 0 else 1, probes)))"

definition runtime_is_ready :: "host \<Rightarrow> fs \<Rightarrow> int \<times> probe list" where
  "runtime_is_ready h s =
     (if \<not> test_x s (RUNTIME_PYTHON h) then (1, [Test_x (RUNTIME_PYTHON h)])
      else if \<not> test_f s (marker_file h)
      then (1, [Test_x (RUNTIME_PYTHON h), Test_f (marker_file h)])
      else
        (let runtime_version = cmd_subst (cat s (marker_file h));
             probes = [Test_x (RUNTIME_PYTHON h), Test_f (marker_file h), Cat (marker_file h)]
         in if runtime_version \<noteq> required_version then (1, probes)
            else (let (st, probes') = python_is_supported s (RUNTIME_PYTHON h)
                  in (st, probes @ probes'))))"

subsection \<open>The bootstrap interpreter\<close>

definition candidates :: "host \<Rightarrow> string list" where
  "candidates h =
     (case CLICKSPEAK_HOST_PYTHON h of
        None \<Rightarrow> []
      | Some v \<Rightarrow> if v \<noteq> [] then [v] else [])
     @ filter (\<lambda>candidate. candidate \<noteq> [])
         [cmd_subst (command_v h ''python3.12''), cmd_subst (command_v h ''python3'')]"

text \<open>The second loop: status, standard output and probes of \<^verbatim>\<open>resolve_host_python\<close>.\<close>

fun try_candidates :: "fs \<Rightarrow> string list \<Rightarrow> int \<times> string \<times> probe list" where
  "try_candidates s [] = (1, [], [])"
| "try_candidates s (candidate # cs) =
     (let (st, probes) = python_is_supported s candidate
      in if st = 0 then (0, echo candidate, probes)
         else (let (st', out, probes') = try_candidates s cs
               in (st', out, probes @ probes')))"

definition resolve_host_python :: "host \<Rightarrow> fs \<Rightarrow> int \<times> string \<times> probe list" where
  "resolve_host_python h s =
     (let (st, out, probes) = try_candidates s (candidates h)
      in (st, out, [Command_v ''python3.12'', Command_v ''python3''] @ probes))"

subsection \<open>The rebuild\<close>

text \<open>Is \<open>p\<close> the directory \<open>d\<close> or a path below it?\<close>

definition inside_tree :: "string \<Rightarrow> string \<Rightarrow> bool" where
  "inside_tree d p = (p = d \<or> take (length d + 1) p = d @ ''/'')"

text \<open>The file system without the paths in \<open>P\<close>, and without a whole tree.\<close>

definition remove_paths :: "(string \<Rightarrow> bool) \<Rightarrow> fs \<Rightarrow> fs" where
  "remove_paths P s =
     \<lparr>test_x = (\<lambda>p. if P p then False else test_x s p),
      test_f = (\<lambda>p. if P p then False else test_f s p),
      cat = (\<lambda>p. if P p then [] else cat s p),
      python_version = (\<lambda>p. if P p then (127, []) else python_version s p)\<rparr>"

definition remove_tree :: "string \<Rightarrow> fs \<Rightarrow> fs" where
  "remove_tree d s = remove_paths (inside_tree d) s"

text \<open>
  One command of the rebuild: its exit status and the file system after it.
  \<^item> \<^verbatim>\<open>rm -rf d\<close> removes the tree and returns 0, or returns 1 with a part of the tree
    removed;
  \<^item> \<^verbatim>\<open>mkdir -p d\<close> makes \<open>d\<close> (a directory passes \<^verbatim>\<open>-x\<close>) and returns 0, or returns 1 after
    it has made some of the directories that \<open>d\<close> lies in;
  \<^item> \<^verbatim>\<open>echo\<close> writes to the standard output and returns 0, or returns 1;
  \<^item> the last line, \<^verbatim>\<open>printf ... > file\<close>, is two commands: the shell creates (or empties)
    the file, and returns 1 with nothing changed when it cannot; then \<^verbatim>\<open>printf\<close> writes the
    line and returns 0, or returns 1 with only the first bytes of the line written.
\<close>

fun exec :: "tools \<Rightarrow> command \<Rightarrow> fs \<Rightarrow> int \<times> fs" where
  "exec t (Rm_rf d) s =
     (case rm_rf_stops t d s of
        None \<Rightarrow> (0, remove_tree d s)
      | Some R \<Rightarrow> (1, remove_paths (\<lambda>p. R p \<and> inside_tree d p) s))"
| "exec t (Mkdir_p d) s =
     (case mkdir_p_stops t d s of
        None \<Rightarrow> (0, s\<lparr>test_x := (test_x s)(d := True)\<rparr>)
      | Some C \<Rightarrow> (1, s\<lparr>test_x := (\<lambda>p. (C p \<and> inside_tree p d) \<or> test_x s p)\<rparr>))"
| "exec t (Echo m) s = (if echo_fails t m s then 1 else 0, s)"
| "exec t (Venv py d) s = venv t py d s"
| "exec t (Pip_upgrade py) s = pip_upgrade t py s"
| "exec t (Pip_install_e py proj) s = pip_install_e t py proj s"
| "exec t (Truncate f) s =
     (if redirect_fails t f s then (1, s)
      else (0, s\<lparr>test_f := (test_f s)(f := True), cat := (cat s)(f := [])\<rparr>))"
| "exec t (Write f txt) s =
     (case printf_stops t f s of
        None \<Rightarrow> (0, s\<lparr>cat := (cat s)(f := cat s f @ txt)\<rparr>)
      | Some k \<Rightarrow> (1, s\<lparr>cat := (cat s)(f := cat s f @ take k txt)\<rparr>))"

text \<open>
  Under \<^verbatim>\<open>set -e\<close> the first command with a status other than 0 ends the script. The result
  is the status, the file system, and the commands that were run.
\<close>

fun run_commands :: "tools \<Rightarrow> command list \<Rightarrow> fs \<Rightarrow> int \<times> fs \<times> command list" where
  "run_commands t [] s = (0, s, [])"
| "run_commands t (c # cs) s =
     (let (st, s') = exec t c s
      in if st \<noteq> 0 then (st, s', [c])
         else (let (st', s'', ran) = run_commands t cs s' in (st', s'', c # ran)))"

text \<open>Lines 93-100 of the script, in order.\<close>

definition rebuild_commands :: "host \<Rightarrow> string \<Rightarrow> command list" where
  "rebuild_commands h bootstrap_python =
     [Rm_rf (RUNTIME_DIR h),
      Mkdir_p (RUNTIME_DIR h),
      Echo (''[clickspeak] Bootstrapping app runtime at '' @ RUNTIME_DIR h
            @ '' using '' @ bootstrap_python),
      Venv bootstrap_python (RUNTIME_DIR h),
      Pip_upgrade (RUNTIME_PYTHON h),
      Pip_install_e (RUNTIME_PYTHON h) (PROJECT_DIR h),
      Truncate (marker_file h),
      Write (marker_file h) (required_version @ newline)]"

record outcome =
  status :: int
  final :: fs
  printed :: "string list"
  probed :: "probe list"
  ran :: "command list"

definition unavailable_message :: "string list" where
  "unavailable_message =
     [''[clickspeak] Could not locate a supported Python '' @ REQUIRED_PYTHON_MAJOR @ ''.''
        @ REQUIRED_PYTHON_MINOR @ '' runtime.'',
      ''[clickspeak] Install Python '' @ REQUIRED_PYTHON_MAJOR @ ''.''
        @ REQUIRED_PYTHON_MINOR @ '' and re-run.'']"

fun echoed :: "command list \<Rightarrow> string list" where
  "echoed [] = []"
| "echoed (Echo m # cs) = m # echoed cs"
| "echoed (c # cs) = echoed cs"

text \<open>
  The lines that a sequence of \<^verbatim>\<open>echo\<close> commands writes under \<^verbatim>\<open>set -e\<close>: those before the
  first \<^verbatim>\<open>echo\<close> that fails.
\<close>

fun echo_lines :: "tools \<Rightarrow> fs \<Rightarrow> string list \<Rightarrow> string list" where
  "echo_lines t s [] = []"
| "echo_lines t s (m # ms) = (if echo_fails t m s then [] else m # echo_lines t s ms)"

text \<open>
  Lines 78-101. Without a bootstrap interpreter the status is 1, by \<^verbatim>\<open>return 1\<close> or by an
  \<^verbatim>\<open>echo\<close> that fails. In the rebuild the command that has failed, the last of those run,
  has written no message.
\<close>

definition ensure_runtime :: "host \<Rightarrow> tools \<Rightarrow> fs \<Rightarrow> outcome" where
  "ensure_runtime h t s =
     (let (ready, probes) = runtime_is_ready h s
      in if ready = 0
         then \<lparr>status = 0, final = s, printed = [], probed = probes, ran = []\<rparr>
         else
           (let (st, out, probes') = resolve_host_python h s;
                bootstrap_python = cmd_subst out
            in if bootstrap_python = []
               then \<lparr>status = 1, final = s, printed = echo_lines t s unavailable_message,
                     probed = probes @ probes', ran = []\<rparr>
               else
                 (let (st', s', cs) = run_commands t (rebuild_commands h bootstrap_python) s
                  in \<lparr>status = st', final = s',
                      printed = echoed (if st' = 0 then cs else butlast cs),
                      probed = probes @ probes', ran = cs\<rparr>)))"




section \<open>Example worlds\<close>

text \<open>
  A launch with \<^verbatim>\<open>HOME\<close> unset and both overrides set to paths that exist.
\<close>

definition world_no_home :: world where
  "world_no_home =
     \<lparr>envp = (\<lambda>v. if v = ''CLICKSPEAK_RUNTIME_DIR'' then Some ''/opt/rt''
                  else if v = ''CLICKSPEAK_PROJECT_DIR'' then Some ''/opt/proj'' else None),
      access_F_OK = (\<lambda>p. True),
      file_content = (\<lambda>p. None),
      interpreter_reports = (\<lambda>p. None),
      PATH_MAX = 1024,
      fork_succeeds = True,
      NSGetExecutablePath = (\<lambda>n. None),
      Py_DecodeLocale = (\<lambda>s. Some s),
      PyConfig_SetString = (\<lambda>s. PyStatus_Ok),
      Py_InitializeFromConfig = (\<lambda>e c. PyStatus_Ok),
      PyRun_SimpleString = (\<lambda>l c. 0)\<rparr>"

text \<open>
  A launch of user \<^verbatim>\<open>u\<close> whose runtime directory holds a marker file that says \<^verbatim>\<open>3.11\<close>, and
  an interpreter that reports \<^verbatim>\<open>3.11\<close>; no checkout of the project is found.
\<close>

definition runtime_u :: string where
  "runtime_u = ''/Users/u/Library/Application Support/ClickSpeak/runtime''"

definition world_stale :: world where
  "world_stale =
     \<lparr>envp = (\<lambda>v. if v = ''HOME'' then Some ''/Users/u'' else None),
      access_F_OK = (\<lambda>p. p = runtime_u @ ''/.clickspeak-runtime''),
      file_content = (\<lambda>p. if p = runtime_u @ ''/.clickspeak-runtime''
                           then Some (''3.11'' @ newline) else None),
      interpreter_reports = (\<lambda>p. if p = runtime_u @ ''/bin/python3''
                                  then Some ''3.11'' else None),
      PATH_MAX = 1024,
      fork_succeeds = True,
      NSGetExecutablePath = (\<lambda>n. Some ''/Applications/ClickSpeak.app/Contents/MacOS/ClickSpeak''),
      Py_DecodeLocale = (\<lambda>s. Some s),
      PyConfig_SetString = (\<lambda>s. PyStatus_Ok),
      Py_InitializeFromConfig = (\<lambda>e c. PyStatus_Ok),
      PyRun_SimpleString = (\<lambda>l c. 0)\<rparr>"

text \<open>The same launch with no marker file.\<close>

definition world_unprovisioned :: world where
  "world_unprovisioned = world_stale\<lparr>access_F_OK := (\<lambda>p. False)\<rparr>"

text \<open>The same launch when the path of the interpreter cannot be decoded.\<close>

definition world_undecodable :: world where
  "world_undecodable = world_stale\<lparr>Py_DecodeLocale := (\<lambda>s. None)\<rparr>"

text \<open>The same launch when the interpreter refuses to initialise.\<close>

definition world_init_fails :: world where
  "world_init_fails =
     world_stale\<lparr>Py_InitializeFromConfig := (\<lambda>e c. PyStatus_Exc (Some ''failed to import site''))\<rparr>"

text \<open>The same launch with the project directory given, short and very long.\<close>

definition world_project :: world where
  "world_project =
     world_stale\<lparr>envp := (\<lambda>v. if v = ''HOME'' then Some ''/Users/u''
                            else if v = ''CLICKSPEAK_PROJECT_DIR'' then Some ''/opt/proj''
                            else None)\<rparr>"

definition world_long_project :: world where
  "world_long_project =
     world_stale\<lparr>envp := (\<lambda>v. if v = ''HOME'' then Some ''/Users/u''
                            else if v = ''CLICKSPEAK_PROJECT_DIR''
                            then Some (replicate 8200 (CHR ''a''))
                            else None)\<rparr>"


definition binary_path :: string where
  "binary_path = ''/Applications/ClickSpeak.app/Contents/MacOS/ClickSpeak''"

section \<open>Example hosts\<close>

text \<open>
  The machine of user \<^verbatim>\<open>u\<close>: Homebrew's \<^verbatim>\<open>python3.12\<close> and the system's \<^verbatim>\<open>python3\<close> (a 3.9) are
  on the path, and \<^verbatim>\<open>CLICKSPEAK_HOST_PYTHON\<close> is unset.
\<close>

definition host_u :: host where
  "host_u =
     \<lparr>HOME = ''/Users/u'',
      PROJECT_DIR = ''/Users/u/clickspeak'',
      CLICKSPEAK_HOST_PYTHON = None,
      command_v = (\<lambda>name. if name = ''python3.12'' then ''/opt/homebrew/bin/python3.12'' @ newline
                          else if name = ''python3'' then ''/usr/bin/python3'' @ newline
                          else [])\<rparr>"

text \<open>Its file system before any runtime was provisioned.\<close>

definition fs_fresh :: fs where
  "fs_fresh =
     \<lparr>test_x = (\<lambda>p. p = ''/opt/homebrew/bin/python3.12'' \<or> p = ''/usr/bin/python3''),
      test_f = (\<lambda>p. False),
      cat = (\<lambda>p. []),
      python_version =
        (\<lambda>p. if p = ''/opt/homebrew/bin/python3.12'' then (0, ''3.12'' @ newline)
              else if p = ''/usr/bin/python3'' then (0, ''3.9'' @ newline)
              else (127, []))\<rparr>"

text \<open>
  The same machine with \<^verbatim>\<open>CLICKSPEAK_HOST_PYTHON=-n\<close>, and a file system in which \<^verbatim>\<open>-n\<close> is
  an interpreter of version 3.12 in the working directory.
\<close>

definition host_dash_n :: host where
  "host_dash_n = host_u\<lparr>CLICKSPEAK_HOST_PYTHON := Some ''-n''\<rparr>"

definition fs_dash_n :: fs where
  "fs_dash_n =
     fs_fresh\<lparr>test_x := (\<lambda>p. p = ''-n'' \<or> test_x fs_fresh p),
              python_version := (\<lambda>p. if p = ''-n'' then (0, ''3.12'' @ newline)
                                     else python_version fs_fresh p)\<rparr>"

text \<open>Its file system with a provisioned runtime, and with one whose marker says \<^verbatim>\<open>3.11\<close>.\<close>

definition fs_ready :: fs where
  "fs_ready =
     \<lparr>test_x = (\<lambda>p. p = RUNTIME_PYTHON host_u \<or> p = ''/opt/homebrew/bin/python3.12''
                     \<or> p = ''/usr/bin/python3''),
      test_f = (\<lambda>p. p = marker_file host_u),
      cat = (\<lambda>p. if p = marker_file host_u then ''3.12'' @ newline else []),
      python_version =
        (\<lambda>p. if p = RUNTIME_PYTHON host_u \<or> p = ''/opt/homebrew/bin/python3.12''
              then (0, ''3.12'' @ newline)
              else if p = ''/usr/bin/python3'' then (0, ''3.9'' @ newline)
              else (127, []))\<rparr>"

text \<open>
  The provisioned runtime with a NUL byte in its marker file, and with an interpreter
  that prints \<^verbatim>\<open>3.12\<close> and then ends with status 1.
\<close>

definition fs_nul :: fs where
  "fs_nul =
     fs_ready\<lparr>cat := (\<lambda>p. if p = marker_file host_u then ''3.12'' @ [CHR 0x00] @ newline
                           else [])\<rparr>"

definition fs_exit_1 :: fs where
  "fs_exit_1 =
     fs_ready\<lparr>python_version :=
                (\<lambda>p. if p = RUNTIME_PYTHON host_u then (1, ''3.12'' @ newline)
                      else python_version fs_ready p)\<rparr>"

definition fs_stale :: fs where
  "fs_stale = fs_ready\<lparr>cat := (\<lambda>p. if p = marker_file host_u then ''3.11'' @ newline else [])\<rparr>"

text \<open>
  External programs that work: \<^verbatim>\<open>venv\<close> puts an interpreter of the bootstrap interpreter's
  version into the directory, \<^verbatim>\<open>pip\<close> changes nothing that the script looks at. And the same
  with a \<^verbatim>\<open>pip install -e\<close> that fails.
\<close>

definition tools_ok :: tools where
  "tools_ok =
     \<lparr>venv = (\<lambda>py d s. (0, s\<lparr>test_x := (test_x s)(d @ ''/bin/python3'' := True),
                              python_version :=
                                (python_version s)(d @ ''/bin/python3'' := python_version s py)\<rparr>)),
      pip_upgrade = (\<lambda>py s. (0, s)),
      pip_install_e = (\<lambda>py proj s. (0, s)),
      rm_rf_stops = (\<lambda>d s. None),
      mkdir_p_stops = (\<lambda>d s. None),
      echo_fails = (\<lambda>m s. False),
      redirect_fails = (\<lambda>f s. False),
      printf_stops = (\<lambda>f s. None)\<rparr>"




section \<open>The launcher: auxiliary facts\<close>

lemma snprintf_fits: "length s < n \<Longrightarrow> snprintf n s = s"
  by (simp add: snprintf_def)

lemma start_fields [simp]: "environ (start w) = envp w" "events (start w) = []"
  by (simp_all add: start_def)

lemma show_error_eq: "show_error w m p = p\<lparr>events := events p @ dialog_events w m\<rparr>"
  by (simp add: show_error_def dialog_events_def emit_def)

lemma setenv_events: "events (setenv n v p) = events p"
  by (simp add: setenv_def)

lemma setenv_environ: "environ (setenv n v p) = (environ p)(n := Some v)"
  by (simp add: setenv_def)

lemma emit_events: "events (emit es p) = events p @ es"
  by (simp add: emit_def)

lemma get_runtime_dir_home:
  "environ p ''HOME'' = Some home \<Longrightarrow> \<exists>rd. get_runtime_dir w p = Some rd"
  by (cases "environ p ''CLICKSPEAK_RUNTIME_DIR''")
     (auto simp: get_runtime_dir_def Let_def)

lemma build_environment_events:
  "events (build_environment w rd pd p) =
     events p @ (case pd of Some d \<Rightarrow> [Chdir d] | None \<Rightarrow> [])"
  by (simp add: build_environment_def Let_def setenv_events emit_events
           split: option.splits)

lemma build_environment_pythonpath:
  "environ (build_environment w rd pd p) ''PYTHONPATH'' = Some (pythonpath pd rd)"
  by (simp add: build_environment_def Let_def setenv_environ)

lemma fail_result:
  "fail w st p =
     (1, p\<lparr>events := events p @ [Stderr (init_failed_line (err_msg st))]
                       @ dialog_events w msg_init_failed\<rparr>)"
  by (simp add: fail_def Let_def show_error_eq emit_def)

lemma init_and_run_environ: "environ (snd (init_and_run w argv c p)) = environ p"
  by (simp add: init_and_run_def Let_def fail_result emit_def)

lemma configure_and_run_environ: "environ (snd (configure_and_run w argv rd p)) = environ p"
  by (simp add: configure_and_run_def fail_result init_and_run_environ split: sum.splits)

lemma stderr_lines_append: "stderr_lines (xs @ ys) = stderr_lines xs @ stderr_lines ys"
  by (induction xs rule: stderr_lines.induct) simp_all

lemma stderr_lines_dialog: "stderr_lines (dialog_events w m) = []"
  by (simp add: dialog_events_def)

lemma main_when_home_unset:
  "envp w ''HOME'' = None \<Longrightarrow>
   main w argv = (1, (start w)\<lparr>events := dialog_events w msg_no_home\<rparr>)"
  by (simp add: main_def show_error_eq)

lemma main_when_marker_missing:
  "envp w ''HOME'' = Some home \<Longrightarrow> get_runtime_dir w (start w) = Some rd \<Longrightarrow>
   \<not> validate_runtime w rd \<Longrightarrow>
   main w argv = (1, (start w)\<lparr>events := dialog_events w msg_runtime_not_found\<rparr>)"
  by (simp add: main_def Let_def show_error_eq)

lemma main_when_marker_exists:
  "envp w ''HOME'' = Some home \<Longrightarrow> get_runtime_dir w (start w) = Some rd \<Longrightarrow>
   validate_runtime w rd \<Longrightarrow>
   main w argv =
     configure_and_run w argv rd (build_environment w rd (find_project_dir w (start w)) (start w))"
  by (simp add: main_def Let_def)

subsection \<open>The file contents play no part in a launch\<close>

lemma probe_suffixes_content:
  "probe_suffixes (w\<lparr>file_content := fc, interpreter_reports := ir\<rparr>) home ss
     = probe_suffixes w home ss"
  by (induction ss) (simp_all add: Let_def)

lemma find_project_dir_content:
  "find_project_dir (w\<lparr>file_content := fc, interpreter_reports := ir\<rparr>) p = find_project_dir w p"
  by (simp add: find_project_dir_def Let_def probe_suffixes_content split: option.splits)

lemma get_runtime_dir_content:
  "get_runtime_dir (w\<lparr>file_content := fc, interpreter_reports := ir\<rparr>) p = get_runtime_dir w p"
  by (simp add: get_runtime_dir_def Let_def split: option.splits)

lemma validate_runtime_content:
  "validate_runtime (w\<lparr>file_content := fc, interpreter_reports := ir\<rparr>) rd = validate_runtime w rd"
  by (simp add: validate_runtime_def marker_path_def)

lemma show_error_content:
  "show_error (w\<lparr>file_content := fc, interpreter_reports := ir\<rparr>) m p = show_error w m p"
  by (simp add: show_error_def)

lemma build_environment_content:
  "build_environment (w\<lparr>file_content := fc, interpreter_reports := ir\<rparr>) rd pd p
     = build_environment w rd pd p"
  by (simp add: build_environment_def)

lemma fail_content:
  "fail (w\<lparr>file_content := fc, interpreter_reports := ir\<rparr>) st p = fail w st p"
  by (simp add: fail_def show_error_content)

lemma init_and_run_content:
  "init_and_run (w\<lparr>file_content := fc, interpreter_reports := ir\<rparr>) argv c p
     = init_and_run w argv c p"
  by (simp add: init_and_run_def Let_def fail_content)

lemma configure_content:
  "configure (w\<lparr>file_content := fc, interpreter_reports := ir\<rparr>) rd = configure w rd"
  by (simp add: configure_def Let_def venv_python_def split: option.splits)

lemma configure_and_run_content:
  "configure_and_run (w\<lparr>file_content := fc, interpreter_reports := ir\<rparr>) argv rd p
     = configure_and_run w argv rd p"
  by (simp add: configure_and_run_def configure_content fail_content init_and_run_content
           split: sum.splits)

lemma main_content:
  "main (w\<lparr>file_content := fc, interpreter_reports := ir\<rparr>) argv = main w argv"
  by (simp add: main_def Let_def start_def find_project_dir_content get_runtime_dir_content
        validate_runtime_content show_error_content build_environment_content
        configure_and_run_content split: option.splits)

subsection \<open>The argument list\<close>

lemma fill_argv:
  "k \<le> length argv \<Longrightarrow>
   fold (\<lambda>i l. PyList_SetItem l i (argv ! i)) [0..<k] (PyList_New (length argv))
     = map Some (take k argv) @ replicate (length argv - k) None"
proof (induction k)
  case 0
  then show ?case by (simp add: PyList_New_def)
next
  case (Suc k)
  then have k: "k < length argv" by simp
  then obtain m where m: "length argv - k = Suc m"
    by (cases "length argv - k") auto
  then have m': "length argv - Suc k = m" by simp
  have "(map Some (take k argv) @ replicate (length argv - k) None)[k := Some (argv ! k)]
        = map Some (take (Suc k) argv) @ replicate (length argv - Suc k) None"
    using k by (simp add: m m' take_Suc_conv_app_nth list_update_append)
  with Suc k show ?case
    by (simp add: PyList_SetItem_def)
qed

lemma build_sys_argv_Nil: "build_sys_argv [] = []"
  by (simp add: build_sys_argv_def PyList_New_def PyList_SetItem_def)

lemma build_sys_argv_Cons: "build_sys_argv (a # as) = Some ''ClickSpeak'' # map Some as"
  using fill_argv [of "length (a # as)" "a # as"]
  by (simp add: build_sys_argv_def Let_def PyList_SetItem_def del: upt_Suc)

lemma init_and_run_sys_argv:
  "Set_sys_argv l \<in> set (events (snd (init_and_run w argv c p))) \<Longrightarrow>
   Set_sys_argv l \<in> set (events p) \<or> l = build_sys_argv argv"
  by (auto simp: init_and_run_def Let_def fail_result emit_def dialog_events_def
           split: if_splits)

lemma configure_and_run_sys_argv:
  "Set_sys_argv l \<in> set (events (snd (configure_and_run w argv rd p))) \<Longrightarrow>
   Set_sys_argv l \<in> set (events p) \<or> l = build_sys_argv argv"
  by (auto simp: configure_and_run_def fail_result dialog_events_def
           dest: init_and_run_sys_argv split: sum.splits)

lemma main_sys_argv:
  "Set_sys_argv l \<in> set (events (snd (main w argv))) \<Longrightarrow> l = build_sys_argv argv"
  by (auto simp: main_def Let_def show_error_eq dialog_events_def build_environment_events
           dest!: configure_and_run_sys_argv split: option.splits if_splits)

lemma init_and_run_exit_0:
  "fst (init_and_run w argv c p) = 0 \<Longrightarrow>
   Set_sys_argv (build_sys_argv argv) \<in> set (events (snd (init_and_run w argv c p)))"
  by (auto simp: init_and_run_def Let_def fail_result emit_def split: if_splits)

lemma main_exit_0:
  "fst (main w argv) = 0 \<Longrightarrow>
   Set_sys_argv (build_sys_argv argv) \<in> set (events (snd (main w argv)))"
  by (auto simp: main_def Let_def show_error_eq configure_and_run_def fail_result
           dest: init_and_run_exit_0 split: option.splits sum.splits if_splits)

subsection \<open>The example worlds\<close>

lemma world_stale_fields:
  "envp world_stale ''HOME'' = Some ''/Users/u''"
  "envp world_stale ''CLICKSPEAK_RUNTIME_DIR'' = None"
  "envp world_stale ''CLICKSPEAK_PROJECT_DIR'' = None"
  "PATH_MAX world_stale = 1024"
  "fork_succeeds world_stale"
  "Py_DecodeLocale world_stale s = Some s"
  "PyConfig_SetString world_stale s = PyStatus_Ok"
  "Py_InitializeFromConfig world_stale e c = PyStatus_Ok"
  "PyRun_SimpleString world_stale l code = 0"
  "access_F_OK world_stale = (\<lambda>p. p = runtime_u @ ''/.clickspeak-runtime'')"
  by (simp_all add: world_stale_def)

lemma runtime_dir_u:
  "envp w ''HOME'' = Some ''/Users/u'' \<Longrightarrow> envp w ''CLICKSPEAK_RUNTIME_DIR'' = None \<Longrightarrow>
   PATH_MAX w = 1024 \<Longrightarrow> get_runtime_dir w (start w) = Some runtime_u"
  by (simp add: get_runtime_dir_def runtime_u_def snprintf_def)

lemma marker_path_u: "PATH_MAX w = 1024 \<Longrightarrow> marker_path w runtime_u = runtime_u @ ''/.clickspeak-runtime''"
  by (simp add: marker_path_def runtime_u_def snprintf_def)

lemma venv_python_u: "PATH_MAX w = 1024 \<Longrightarrow> venv_python w runtime_u = runtime_u @ ''/bin/python3''"
  by (simp add: venv_python_def runtime_u_def snprintf_def)

lemma no_project_u:
  "envp w ''HOME'' = Some ''/Users/u'' \<Longrightarrow> envp w ''CLICKSPEAK_PROJECT_DIR'' = None \<Longrightarrow>
   PATH_MAX w = 1024 \<Longrightarrow> access_F_OK w = (\<lambda>p. p = runtime_u @ ''/.clickspeak-runtime'') \<Longrightarrow>
   find_project_dir w (start w) = None"
  by (simp add: find_project_dir_def suffixes_def snprintf_def runtime_u_def)

lemma world_stale_dirs:
  "get_runtime_dir world_stale (start world_stale) = Some runtime_u"
  "find_project_dir world_stale (start world_stale) = None"
  "validate_runtime world_stale runtime_u"
  by (simp_all add: runtime_dir_u no_project_u validate_runtime_def marker_path_u world_stale_fields)

lemma world_stale_main:
  "fst (main world_stale argv) = 0"
  "events (snd (main world_stale argv)) =
     [Initialize \<lparr>executable = Some (runtime_u @ ''/bin/python3''),
                  parse_argv = 0, site_import = 1\<rparr>,
      Set_sys_argv (build_sys_argv argv),
      Run_string entry_code, Finalize]"
  by (simp_all add: main_def Let_def world_stale_fields world_stale_dirs venv_python_u
        configure_and_run_def configure_def init_and_run_def emit_def
        build_environment_events PyConfig_InitPythonConfig_def)

lemma world_no_home_fields:
  "envp world_no_home ''HOME'' = None"
  "envp world_no_home ''CLICKSPEAK_RUNTIME_DIR'' = Some ''/opt/rt''"
  "envp world_no_home ''CLICKSPEAK_PROJECT_DIR'' = Some ''/opt/proj''"
  "access_F_OK world_no_home p"
  "fork_succeeds world_no_home"
  by (simp_all add: world_no_home_def)

lemma world_unprovisioned_dirs:
  "envp world_unprovisioned ''HOME'' = Some ''/Users/u''"
  "get_runtime_dir world_unprovisioned (start world_unprovisioned) = Some runtime_u"
  "\<not> validate_runtime world_unprovisioned runtime_u"
  "fork_succeeds world_unprovisioned"
  by (simp_all add: runtime_dir_u validate_runtime_def world_unprovisioned_def world_stale_fields)

lemma world_undecodable_dirs:
  "envp world_undecodable ''HOME'' = Some ''/Users/u''"
  "get_runtime_dir world_undecodable (start world_undecodable) = Some runtime_u"
  "find_project_dir world_undecodable (start world_undecodable) = None"
  "validate_runtime world_undecodable runtime_u"
  "Py_DecodeLocale world_undecodable s = None"
  "Py_InitializeFromConfig world_undecodable e c = PyStatus_Ok"
  "PyRun_SimpleString world_undecodable l code = 0"
  by (simp_all add: runtime_dir_u no_project_u validate_runtime_def marker_path_u
        world_undecodable_def world_stale_fields)

lemma world_init_fails_dirs:
  "envp world_init_fails ''HOME'' = Some ''/Users/u''"
  "get_runtime_dir world_init_fails (start world_init_fails) = Some runtime_u"
  "find_project_dir world_init_fails (start world_init_fails) = None"
  "validate_runtime world_init_fails runtime_u"
  "configure world_init_fails runtime_u
     = Inr \<lparr>executable = Some (runtime_u @ ''/bin/python3''), parse_argv = 1, site_import = 1\<rparr>"
  "Py_InitializeFromConfig world_init_fails e c = PyStatus_Exc (Some ''failed to import site'')"
  "fork_succeeds world_init_fails"
  by (simp_all add: runtime_dir_u no_project_u validate_runtime_def marker_path_u venv_python_u
        configure_def PyConfig_InitPythonConfig_def world_init_fails_def world_stale_fields)

lemma world_project_dirs:
  "envp world_project ''HOME'' = Some ''/Users/u''"
  "get_runtime_dir world_project (start world_project) = Some runtime_u"
  "find_project_dir world_project (start world_project) = Some ''/opt/proj''"
  "validate_runtime world_project runtime_u"
  by (simp_all add: runtime_dir_u find_project_dir_def validate_runtime_def marker_path_u
        world_project_def world_stale_fields)

lemma set_and_nonempty_Some: "set_and_nonempty (Some s) = (s \<noteq> [])"
  by (cases s) simp_all

lemma world_long_project_dirs:
  "envp world_long_project ''HOME'' = Some ''/Users/u''"
  "get_runtime_dir world_long_project (start world_long_project) = Some runtime_u"
  "find_project_dir world_long_project (start world_long_project) = Some (replicate 8200 (CHR ''a''))"
  "validate_runtime world_long_project runtime_u"
  by (simp_all add: runtime_dir_u find_project_dir_def validate_runtime_def marker_path_u
        set_and_nonempty_Some world_long_project_def world_stale_fields)

section \<open>The launcher: properties\<close>

text \<open>
  C9. When \<^verbatim>\<open>HOME\<close> is unset the launcher shows the dialog "HOME environment variable is
  not set." (when \<^verbatim>\<open>fork\<close> succeeds), touches nothing else and returns 1. Nothing is assumed
  about \<^verbatim>\<open>CLICKSPEAK_RUNTIME_DIR\<close> and \<^verbatim>\<open>CLICKSPEAK_PROJECT_DIR\<close>: the check of \<^verbatim>\<open>HOME\<close> comes
  first and does not depend on them.
\<close>

theorem home_unset_fails_first:
  assumes "envp w ''HOME'' = None"
  shows "fst (main w argv) = 1
       \<and> events (snd (main w argv)) = dialog_events w msg_no_home
       \<and> environ (snd (main w argv)) = envp w"
  using assms by (simp add: main_when_home_unset)

theorem home_unset_fails_first_witness:
  "envp world_no_home ''HOME'' = None
   \<and> envp world_no_home ''CLICKSPEAK_RUNTIME_DIR'' = Some ''/opt/rt''
   \<and> envp world_no_home ''CLICKSPEAK_PROJECT_DIR'' = Some ''/opt/proj''
   \<and> access_F_OK world_no_home ''/opt/rt/.clickspeak-runtime''
   \<and> access_F_OK world_no_home ''/opt/proj''
   \<and> fst (main world_no_home [binary_path]) = 1
   \<and> events (snd (main world_no_home [binary_path]))
       = [Execlp ''osascript'' [''osascript'', ''-e'', dialog_script msg_no_home], Waitpid]"
  using home_unset_fails_first [of world_no_home "[binary_path]"]
  by (simp add: world_no_home_fields dialog_events_def)

text \<open>
  C10. When \<^verbatim>\<open>Py_DecodeLocale\<close> returns \<^verbatim>\<open>NULL\<close> for the interpreter's path, the launcher
  does not jump to \<^verbatim>\<open>fail\<close>: it calls \<^verbatim>\<open>Py_InitializeFromConfig\<close> with a configuration in which
  no executable is set, and when that succeeds it installs the arguments, runs the entry
  point, writes nothing to the standard error stream and shows no dialog.
\<close>

theorem decode_failure_skips_executable:
  assumes "envp w ''HOME'' = Some home"
    and "get_runtime_dir w (start w) = Some rd"
    and "validate_runtime w rd"
    and "Py_DecodeLocale w (venv_python w rd) = None"
  shows "configure w rd = Inr \<lparr>executable = None, parse_argv = 1, site_import = 1\<rparr>
       \<and> Initialize \<lparr>executable = None, parse_argv = 0, site_import = 1\<rparr>
           \<in> set (events (snd (main w argv)))
       \<and> (Py_InitializeFromConfig w
             (environ (build_environment w rd (find_project_dir w (start w)) (start w)))
             \<lparr>executable = None, parse_argv = 0, site_import = 1\<rparr> = PyStatus_Ok
           \<longrightarrow> fst (main w argv)
                 = (if PyRun_SimpleString w (build_sys_argv argv) entry_code \<noteq> 0 then 1 else 0)
               \<and> events (snd (main w argv))
                 = (case find_project_dir w (start w) of Some d \<Rightarrow> [Chdir d] | None \<Rightarrow> [])
                   @ [Initialize \<lparr>executable = None, parse_argv = 0, site_import = 1\<rparr>,
                      Set_sys_argv (build_sys_argv argv),
                      Run_string entry_code, Finalize])"
proof -
  let ?c = "\<lparr>executable = None, parse_argv = 1, site_import = 1\<rparr>"
  let ?c' = "\<lparr>executable = None, parse_argv = 0, site_import = 1\<rparr>"
  let ?p = "build_environment w rd (find_project_dir w (start w)) (start w)"
  have c: "configure w rd = Inr ?c"
    using assms(4) by (simp add: configure_def PyConfig_InitPythonConfig_def)
  have m: "main w argv = init_and_run w argv ?c ?p"
    using assms(1-3) c by (simp add: main_when_marker_exists configure_and_run_def)
  have i: "Initialize ?c' \<in> set (events (snd (init_and_run w argv ?c ?p)))"
    by (simp add: init_and_run_def Let_def fail_result emit_events)
  have r: "Py_InitializeFromConfig w (environ ?p) ?c' = PyStatus_Ok
           \<Longrightarrow> init_and_run w argv ?c ?p
               = (if PyRun_SimpleString w (build_sys_argv argv) entry_code \<noteq> 0 then 1 else 0,
                  ?p\<lparr>events := events ?p
                      @ [Initialize ?c', Set_sys_argv (build_sys_argv argv),
                         Run_string entry_code, Finalize]\<rparr>)"
    by (simp add: init_and_run_def Let_def emit_def)
  show ?thesis
    using c m i r by (simp add: build_environment_events)
qed

theorem decode_failure_skips_executable_witness:
  "Py_DecodeLocale world_undecodable (venv_python world_undecodable runtime_u) = None
   \<and> fst (main world_undecodable [binary_path]) = 0
   \<and> events (snd (main world_undecodable [binary_path]))
       = [Initialize \<lparr>executable = None, parse_argv = 0, site_import = 1\<rparr>,
          Set_sys_argv [Some ''ClickSpeak''],
          Run_string entry_code, Finalize]"
  using decode_failure_skips_executable
          [of world_undecodable "''/Users/u''" runtime_u "[binary_path]"]
  by (simp add: world_undecodable_dirs build_sys_argv_Cons)

subsection \<open>The argument list\<close>

text \<open>
  What lines 172-186 build from a non-empty argument vector: a list as long as the vector,
  with \<^verbatim>\<open>"ClickSpeak"\<close> at index 0 and the vector's own elements from index 1 on. The
  launcher installs no other list, and installs this one whenever it returns 0.
\<close>

lemma sys_argv_of_nonempty_argv:
  "length (build_sys_argv argv) = length argv
   \<and> (argv \<noteq> [] \<longrightarrow> build_sys_argv argv ! 0 = Some ''ClickSpeak'')
   \<and> (\<forall>i. 1 \<le> i \<and> i < length argv \<longrightarrow> build_sys_argv argv ! i = Some (argv ! i))
   \<and> (\<forall>l. Set_sys_argv l \<in> set (events (snd (main w argv))) \<longrightarrow> l = build_sys_argv argv)
   \<and> (fst (main w argv) = 0 \<longrightarrow>
        Set_sys_argv (build_sys_argv argv) \<in> set (events (snd (main w argv))))"
proof -
  have len: "length (build_sys_argv argv) = length argv"
    by (cases argv) (simp_all add: build_sys_argv_Nil build_sys_argv_Cons)
  have name: "argv \<noteq> [] \<longrightarrow> build_sys_argv argv ! 0 = Some ''ClickSpeak''"
    by (cases argv) (simp_all add: build_sys_argv_Cons)
  have rest: "\<forall>i. 1 \<le> i \<and> i < length argv \<longrightarrow> build_sys_argv argv ! i = Some (argv ! i)"
    by (cases argv) (auto simp: build_sys_argv_Cons nth_Cons split: nat.splits)
  have only: "\<forall>l. Set_sys_argv l \<in> set (events (snd (main w argv))) \<longrightarrow> l = build_sys_argv argv"
    by (blast dest: main_sys_argv)
  have installed: "fst (main w argv) = 0 \<longrightarrow>
        Set_sys_argv (build_sys_argv argv) \<in> set (events (snd (main w argv)))"
    by (blast dest: main_exit_0)
  from len name rest only installed show ?thesis by blast
qed

lemma sys_argv_check_permissions:
  "build_sys_argv [binary_path, ''--check-permissions'']
     = [Some ''ClickSpeak'', Some ''--check-permissions'']
   \<and> fst (main world_stale [binary_path, ''--check-permissions'']) = 0
   \<and> Set_sys_argv [Some ''ClickSpeak'', Some ''--check-permissions'']
       \<in> set (events (snd (main world_stale [binary_path, ''--check-permissions''])))"
  by (simp add: world_stale_main build_sys_argv_Cons)



text \<open>
  C1 (as amended). With \<^verbatim>\<open>HOME\<close> set, the check of the runtime directory succeeds if and only
  if the marker path \<^verbatim>\<open><runtime_dir>/.clickspeak-runtime\<close> (cut to \<^verbatim>\<open>PATH_MAX - 1\<close> bytes) exists.
  When it does not exist the launcher shows the dialog "ClickSpeak runtime not found. ..."
  (when \<^verbatim>\<open>fork\<close> succeeds) and returns 1; when it exists the launcher goes on to build the
  environment and to configure the interpreter. What the marker file holds and which
  version the interpreter reports change neither the check nor the launch.
\<close>

theorem validate_runtime_checks_marker_existence:
  assumes "envp w ''HOME'' = Some home"
    and "get_runtime_dir w (start w) = Some rd"
  shows "(validate_runtime w rd
            \<longleftrightarrow> access_F_OK w (snprintf (PATH_MAX w) (rd @ ''/.clickspeak-runtime'')))
       \<and> (\<not> validate_runtime w rd \<longrightarrow>
            main w argv = (1, (start w)\<lparr>events := dialog_events w msg_runtime_not_found\<rparr>))
       \<and> (validate_runtime w rd \<longrightarrow>
            main w argv =
              configure_and_run w argv rd
                (build_environment w rd (find_project_dir w (start w)) (start w)))
       \<and> validate_runtime (w\<lparr>file_content := fc, interpreter_reports := ir\<rparr>) rd
            = validate_runtime w rd
       \<and> main (w\<lparr>file_content := fc, interpreter_reports := ir\<rparr>) argv = main w argv"
proof -
  have a: "validate_runtime w rd
            \<longleftrightarrow> access_F_OK w (snprintf (PATH_MAX w) (rd @ ''/.clickspeak-runtime''))"
    by (simp add: validate_runtime_def marker_path_def)
  have b: "\<not> validate_runtime w rd \<longrightarrow>
            main w argv = (1, (start w)\<lparr>events := dialog_events w msg_runtime_not_found\<rparr>)"
    using assms by (simp add: main_when_marker_missing)
  have c: "validate_runtime w rd \<longrightarrow>
            main w argv =
              configure_and_run w argv rd
                (build_environment w rd (find_project_dir w (start w)) (start w))"
    using assms by (simp add: main_when_marker_exists)
  from a b c show ?thesis
    by (simp only: validate_runtime_content main_content)
qed

theorem validate_runtime_checks_marker_existence_witness:
  "\<not> access_F_OK world_unprovisioned (runtime_u @ ''/.clickspeak-runtime'')
   \<and> main world_unprovisioned [binary_path]
       = (1, \<lparr>environ = envp world_unprovisioned,
              events = [Execlp ''osascript''
                          [''osascript'', ''-e'', dialog_script msg_runtime_not_found],
                        Waitpid]\<rparr>)
   \<and> access_F_OK world_stale (runtime_u @ ''/.clickspeak-runtime'')
   \<and> validate_runtime world_stale runtime_u"
proof -
  have u: "\<not> access_F_OK world_unprovisioned (runtime_u @ ''/.clickspeak-runtime'')"
    by (simp add: world_unprovisioned_def)
  have s: "access_F_OK world_stale (runtime_u @ ''/.clickspeak-runtime'')"
    by (simp add: world_stale_fields)
  note U = validate_runtime_checks_marker_existence
             [OF world_unprovisioned_dirs(1) world_unprovisioned_dirs(2), of "[binary_path]"]
  note S = validate_runtime_checks_marker_existence
             [OF world_stale_fields(1) world_stale_dirs(1), of "[binary_path]"]
  have "main world_unprovisioned [binary_path]
          = (1, (start world_unprovisioned)
                  \<lparr>events := dialog_events world_unprovisioned msg_runtime_not_found\<rparr>)"
    using U world_unprovisioned_dirs(3) by blast
  moreover have "access_F_OK world_stale
                    (snprintf (PATH_MAX world_stale) (runtime_u @ ''/.clickspeak-runtime''))"
    using s marker_path_u [of world_stale] by (simp add: marker_path_def world_stale_fields)
  with S have "validate_runtime world_stale runtime_u"
    by blast
  ultimately show ?thesis
    using u s by (simp add: start_def dialog_events_def world_unprovisioned_dirs)
qed

text \<open>
  C1 as stated fails: a runtime directory whose marker file holds \<^verbatim>\<open>3.11\<close> and whose
  interpreter reports \<^verbatim>\<open>3.11\<close> passes the check, and the launch runs the entry point and
  returns 0 without any dialog.
\<close>

theorem mismatched_marker_passes_validation:
  "get_runtime_dir world_stale (start world_stale) = Some runtime_u
   \<and> file_content world_stale (marker_path world_stale runtime_u) = Some (''3.11'' @ newline)
   \<and> interpreter_reports world_stale (venv_python world_stale runtime_u) = Some ''3.11''
   \<and> validate_runtime world_stale runtime_u
   \<and> fst (main world_stale [binary_path]) = 0
   \<and> events (snd (main world_stale [binary_path]))
       = [Initialize \<lparr>executable = Some (runtime_u @ ''/bin/python3''),
                      parse_argv = 0, site_import = 1\<rparr>,
          Set_sys_argv [Some ''ClickSpeak''],
          Run_string entry_code, Finalize]"
  by (simp add: world_stale_dirs world_stale_main build_sys_argv_Cons marker_path_u
        venv_python_u world_stale_fields)
     (simp add: world_stale_def)

text \<open>
  C2 (as amended). Every error of the launcher ends in \<^verbatim>\<open>show_error\<close> and the return value 1:
  the dialog is run in a child process that the launcher waits for (when \<^verbatim>\<open>fork\<close> fails
  there is no dialog). Only a failed initialisation of the interpreter (a status with an
  exception from \<^verbatim>\<open>PyConfig_SetString\<close> or \<^verbatim>\<open>Py_InitializeFromConfig\<close>) writes a line to the
  standard error stream as well; an unset \<^verbatim>\<open>HOME\<close> and a missing marker write nothing there.
\<close>

theorem launcher_errors_show_dialog_and_return_1:
  "(envp w ''HOME'' = None \<longrightarrow>
      main w argv = (1, (start w)\<lparr>events := dialog_events w msg_no_home\<rparr>)
      \<and> stderr_lines (events (snd (main w argv))) = [])
   \<and> (\<forall>home rd.
        envp w ''HOME'' = Some home \<and> get_runtime_dir w (start w) = Some rd
        \<and> \<not> validate_runtime w rd \<longrightarrow>
          main w argv = (1, (start w)\<lparr>events := dialog_events w msg_runtime_not_found\<rparr>)
          \<and> stderr_lines (events (snd (main w argv))) = [])
   \<and> (\<forall>home rd p st.
        envp w ''HOME'' = Some home \<and> get_runtime_dir w (start w) = Some rd
        \<and> validate_runtime w rd
        \<and> p = build_environment w rd (find_project_dir w (start w)) (start w)
        \<and> configure w rd = Inl st \<longrightarrow>
          main w argv
            = (1, p\<lparr>events := events p @ [Stderr (init_failed_line (err_msg st))]
                                @ dialog_events w msg_init_failed\<rparr>)
          \<and> stderr_lines (events (snd (main w argv))) = [init_failed_line (err_msg st)])
   \<and> (\<forall>home rd p c st.
        envp w ''HOME'' = Some home \<and> get_runtime_dir w (start w) = Some rd
        \<and> validate_runtime w rd
        \<and> p = build_environment w rd (find_project_dir w (start w)) (start w)
        \<and> configure w rd = Inr c
        \<and> Py_InitializeFromConfig w (environ p) (c\<lparr>parse_argv := 0, site_import := 1\<rparr>) = st
        \<and> PyStatus_Exception st \<longrightarrow>
          main w argv
            = (1, p\<lparr>events := events p
                                @ [Initialize (c\<lparr>parse_argv := 0, site_import := 1\<rparr>),
                                   Stderr (init_failed_line (err_msg st))]
                                @ dialog_events w msg_init_failed\<rparr>)
          \<and> stderr_lines (events (snd (main w argv))) = [init_failed_line (err_msg st)])"
proof -
  have no_home: "envp w ''HOME'' = None \<longrightarrow>
      main w argv = (1, (start w)\<lparr>events := dialog_events w msg_no_home\<rparr>)
      \<and> stderr_lines (events (snd (main w argv))) = []"
    by (simp add: main_when_home_unset stderr_lines_dialog)
  have missing: "\<forall>home rd.
        envp w ''HOME'' = Some home \<and> get_runtime_dir w (start w) = Some rd
        \<and> \<not> validate_runtime w rd \<longrightarrow>
          main w argv = (1, (start w)\<lparr>events := dialog_events w msg_runtime_not_found\<rparr>)
          \<and> stderr_lines (events (snd (main w argv))) = []"
    by (simp add: main_when_marker_missing stderr_lines_dialog)
  have chdir: "stderr_lines (events (build_environment w rd pd (start w))) = []" for rd pd
    by (simp add: build_environment_events split: option.splits)
  have set_string: "\<forall>home rd p st.
        envp w ''HOME'' = Some home \<and> get_runtime_dir w (start w) = Some rd
        \<and> validate_runtime w rd
        \<and> p = build_environment w rd (find_project_dir w (start w)) (start w)
        \<and> configure w rd = Inl st \<longrightarrow>
          main w argv
            = (1, p\<lparr>events := events p @ [Stderr (init_failed_line (err_msg st))]
                                @ dialog_events w msg_init_failed\<rparr>)
          \<and> stderr_lines (events (snd (main w argv))) = [init_failed_line (err_msg st)]"
    by (simp add: main_when_marker_exists configure_and_run_def fail_result
          stderr_lines_append stderr_lines_dialog chdir)
  have initialize: "\<forall>home rd p c st.
        envp w ''HOME'' = Some home \<and> get_runtime_dir w (start w) = Some rd
        \<and> validate_runtime w rd
        \<and> p = build_environment w rd (find_project_dir w (start w)) (start w)
        \<and> configure w rd = Inr c
        \<and> Py_InitializeFromConfig w (environ p) (c\<lparr>parse_argv := 0, site_import := 1\<rparr>) = st
        \<and> PyStatus_Exception st \<longrightarrow>
          main w argv
            = (1, p\<lparr>events := events p
                                @ [Initialize (c\<lparr>parse_argv := 0, site_import := 1\<rparr>),
                                   Stderr (init_failed_line (err_msg st))]
                                @ dialog_events w msg_init_failed\<rparr>)
          \<and> stderr_lines (events (snd (main w argv))) = [init_failed_line (err_msg st)]"
    by (simp add: main_when_marker_exists configure_and_run_def init_and_run_def Let_def
          fail_result emit_def stderr_lines_append stderr_lines_dialog chdir)
  from no_home missing set_string initialize show ?thesis
    by (intro conjI)
qed

theorem launcher_errors_show_dialog_and_return_1_witness:
  "main world_no_home [binary_path]
     = (1, \<lparr>environ = envp world_no_home,
            events = [Execlp ''osascript'' [''osascript'', ''-e'', dialog_script msg_no_home],
                      Waitpid]\<rparr>)
   \<and> main world_unprovisioned [binary_path]
     = (1, \<lparr>environ = envp world_unprovisioned,
            events = [Execlp ''osascript''
                        [''osascript'', ''-e'', dialog_script msg_runtime_not_found],
                      Waitpid]\<rparr>)
   \<and> fst (main world_init_fails [binary_path]) = 1
   \<and> events (snd (main world_init_fails [binary_path]))
     = [Initialize \<lparr>executable = Some (runtime_u @ ''/bin/python3''),
                    parse_argv = 0, site_import = 1\<rparr>,
        Stderr (''ClickSpeak: Python initialization failed: failed to import site'' @ newline),
        Execlp ''osascript'' [''osascript'', ''-e'', dialog_script msg_init_failed],
        Waitpid]"
proof -
  note H = launcher_errors_show_dialog_and_return_1 [of world_no_home "[binary_path]"]
  note U = launcher_errors_show_dialog_and_return_1 [of world_unprovisioned "[binary_path]"]
  note I = launcher_errors_show_dialog_and_return_1 [of world_init_fails "[binary_path]"]
  let ?p = "build_environment world_init_fails runtime_u None (start world_init_fails)"
  have h: "main world_no_home [binary_path]
             = (1, (start world_no_home)\<lparr>events := dialog_events world_no_home msg_no_home\<rparr>)"
    using H world_no_home_fields(1) by blast
  have u: "main world_unprovisioned [binary_path]
             = (1, (start world_unprovisioned)
                     \<lparr>events := dialog_events world_unprovisioned msg_runtime_not_found\<rparr>)"
    using U world_unprovisioned_dirs(1-3) by blast
  have "envp world_init_fails ''HOME'' = Some ''/Users/u''
        \<and> get_runtime_dir world_init_fails (start world_init_fails) = Some runtime_u
        \<and> validate_runtime world_init_fails runtime_u
        \<and> ?p = build_environment world_init_fails runtime_u
                  (find_project_dir world_init_fails (start world_init_fails))
                  (start world_init_fails)
        \<and> configure world_init_fails runtime_u
            = Inr \<lparr>executable = Some (runtime_u @ ''/bin/python3''),
                   parse_argv = 1, site_import = 1\<rparr>
        \<and> Py_InitializeFromConfig world_init_fails (environ ?p)
             (\<lparr>executable = Some (runtime_u @ ''/bin/python3''),
                parse_argv = 1, site_import = 1\<rparr>\<lparr>parse_argv := 0, site_import := 1\<rparr>)
            = PyStatus_Exc (Some ''failed to import site'')
        \<and> PyStatus_Exception (PyStatus_Exc (Some ''failed to import site''))"
    by (simp add: world_init_fails_dirs)
  with I have i: "main world_init_fails [binary_path]
            = (1, ?p\<lparr>events := events ?p
                  @ [Initialize (\<lparr>executable = Some (runtime_u @ ''/bin/python3''),
                                  parse_argv = 1, site_import = 1\<rparr>
                                 \<lparr>parse_argv := 0, site_import := 1\<rparr>),
                     Stderr (init_failed_line (err_msg (PyStatus_Exc (Some ''failed to import site''))))]
                  @ dialog_events world_init_fails msg_init_failed\<rparr>)"
    by blast
  show ?thesis
    by (simp add: h u i start_def dialog_events_def world_no_home_fields
          world_unprovisioned_dirs world_init_fails_dirs build_environment_events
          init_failed_line_def)
qed

text \<open>
  C2 as stated fails: with \<^verbatim>\<open>HOME\<close> unset, and with the marker missing, the launcher shows
  the dialog and returns 1 but writes nothing to the standard error stream.
\<close>

theorem early_errors_write_nothing_to_stderr:
  "fst (main world_no_home [binary_path]) = 1
   \<and> events (snd (main world_no_home [binary_path]))
       = [Execlp ''osascript'' [''osascript'', ''-e'', dialog_script msg_no_home], Waitpid]
   \<and> stderr_lines (events (snd (main world_no_home [binary_path]))) = []
   \<and> fst (main world_unprovisioned [binary_path]) = 1
   \<and> events (snd (main world_unprovisioned [binary_path]))
       = [Execlp ''osascript'' [''osascript'', ''-e'', dialog_script msg_runtime_not_found],
          Waitpid]
   \<and> stderr_lines (events (snd (main world_unprovisioned [binary_path]))) = []"
  by (simp add: main_when_home_unset world_no_home_fields dialog_events_def
        main_when_marker_missing [OF world_unprovisioned_dirs(1) world_unprovisioned_dirs(2)
                                     world_unprovisioned_dirs(3)]
        world_unprovisioned_dirs)

subsection \<open>The module search path\<close>

text \<open>
  Lines 127-138. Once the marker has been found, \<^verbatim>\<open>PYTHONPATH\<close> is what \<^verbatim>\<open>snprintf\<close> leaves in a
  buffer of 8192 bytes: \<^verbatim>\<open><project>/src:<runtime>/lib/python3.12/site-packages\<close> when a project
  directory was resolved, \<^verbatim>\<open><runtime>/lib/python3.12/site-packages\<close> when none was.
\<close>

lemma main_pythonpath:
  assumes "envp w ''HOME'' = Some home"
    and "get_runtime_dir w (start w) = Some rd"
    and "validate_runtime w rd"
  shows "environ (snd (main w argv)) ''PYTHONPATH''
           = Some (case find_project_dir w (start w) of
                     Some pd \<Rightarrow> take 8191 (pd @ ''/src:'' @ rd @ ''/lib/python3.12/site-packages'')
                   | None \<Rightarrow> take 8191 (rd @ ''/lib/python3.12/site-packages''))"
proof -
  have "environ (snd (main w argv)) ''PYTHONPATH''
          = Some (pythonpath (find_project_dir w (start w)) rd)"
    using assms
    by (simp add: main_when_marker_exists configure_and_run_environ build_environment_pythonpath)
  then show ?thesis
    by (simp add: pythonpath_def snprintf_def split: option.splits)
qed

text \<open>
  For directories whose names are path names, shorter than \<^verbatim>\<open>PATH_MAX\<close> (1024 where the
  launcher runs), nothing is cut: the project's source directory stands before the
  runtime's package directory, or the runtime's package directory stands alone.
\<close>

lemma pythonpath_of_path_names:
  assumes "envp w ''HOME'' = Some home"
    and "get_runtime_dir w (start w) = Some rd"
    and "validate_runtime w rd"
    and "PATH_MAX w \<le> 4079"
    and "length rd < PATH_MAX w"
  shows "find_project_dir w (start w) = Some pd \<Longrightarrow> length pd < PATH_MAX w \<Longrightarrow>
           environ (snd (main w argv)) ''PYTHONPATH''
             = Some (pd @ ''/src:'' @ rd @ ''/lib/python3.12/site-packages'')"
    and "find_project_dir w (start w) = None \<Longrightarrow>
           environ (snd (main w argv)) ''PYTHONPATH''
             = Some (rd @ ''/lib/python3.12/site-packages'')"
  using assms(4,5) by (simp_all add: main_pythonpath [OF assms(1-3)])

lemma pythonpath_examples:
  "environ (snd (main world_project [binary_path])) ''PYTHONPATH''
       = Some (''/opt/proj/src:'' @ runtime_u @ ''/lib/python3.12/site-packages'')"
  "environ (snd (main world_stale [binary_path])) ''PYTHONPATH''
       = Some (runtime_u @ ''/lib/python3.12/site-packages'')"
proof -
  show "environ (snd (main world_project [binary_path])) ''PYTHONPATH''
       = Some (''/opt/proj/src:'' @ runtime_u @ ''/lib/python3.12/site-packages'')"
    using pythonpath_of_path_names(1)
            [OF world_project_dirs(1) world_project_dirs(2) world_project_dirs(4) _ _
                world_project_dirs(3), of "[binary_path]"]
    by (simp add: world_project_def world_stale_def runtime_u_def)
  show "environ (snd (main world_stale [binary_path])) ''PYTHONPATH''
       = Some (runtime_u @ ''/lib/python3.12/site-packages'')"
    using pythonpath_of_path_names(2)
            [OF world_stale_fields(1) world_stale_dirs(1) world_stale_dirs(3) _ _
                world_stale_dirs(2), of "[binary_path]"]
    by (simp add: world_stale_def runtime_u_def)
qed

text \<open>
  C7. The claim: \<^verbatim>\<open>PYTHONPATH\<close> lists the project's source directory strictly before the
  runtime's package directory whenever a project location is resolved. The launcher takes
  \<^verbatim>\<open>CLICKSPEAK_PROJECT_DIR\<close> as it is given and does not check what \<^verbatim>\<open>snprintf\<close> returns: with a
  value of 8200 bytes a project location is resolved and \<^verbatim>\<open>PYTHONPATH\<close> is the first 8191
  bytes of that value, a single entry that is neither the project's source directory nor
  the runtime's package directory. The comment at line 127 says
  \<^verbatim>\<open>project/src (dev editable install) + runtime site-packages\<close>.
\<close>

theorem long_project_dir_drops_runtime_packages:
  "find_project_dir world_long_project (start world_long_project)
     = Some (replicate 8200 (CHR ''a''))
   \<and> environ (snd (main world_long_project [binary_path])) ''PYTHONPATH''
     = Some (replicate 8191 (CHR ''a''))
   \<and> replicate 8191 (CHR ''a'')
     \<noteq> replicate 8200 (CHR ''a'') @ ''/src:'' @ runtime_u @ ''/lib/python3.12/site-packages''
   \<and> CHR '':'' \<notin> set (replicate 8191 (CHR ''a''))"
proof -
  have "environ (snd (main world_long_project [binary_path])) ''PYTHONPATH''
          = Some (pythonpath (Some (replicate 8200 (CHR ''a''))) runtime_u)"
    using main_when_marker_exists
            [OF world_long_project_dirs(1) world_long_project_dirs(2) world_long_project_dirs(4)]
    by (simp add: configure_and_run_environ build_environment_pythonpath world_long_project_dirs)
  moreover have "pythonpath (Some (replicate 8200 (CHR ''a''))) runtime_u
                   = replicate 8191 (CHR ''a'')"
    by (simp add: pythonpath_def snprintf_def)
  moreover have "replicate 8191 (CHR ''a'')
     \<noteq> replicate 8200 (CHR ''a'') @ ''/src:'' @ runtime_u @ ''/lib/python3.12/site-packages''"
  proof
    assume "replicate 8191 (CHR ''a'')
      = replicate 8200 (CHR ''a'') @ ''/src:'' @ runtime_u @ ''/lib/python3.12/site-packages''"
    then have "length (replicate 8191 (CHR ''a''))
      = length (replicate 8200 (CHR ''a'') @ ''/src:'' @ runtime_u @ ''/lib/python3.12/site-packages'')"
      by (rule arg_cong)
    then show False by simp
  qed
  ultimately show ?thesis
    by (simp add: world_long_project_dirs)
qed

section \<open>The provisioner: auxiliary facts\<close>

lemma required_version_text: "required_version = ''3.12''"
  by (simp add: required_version_def REQUIRED_PYTHON_MAJOR_def REQUIRED_PYTHON_MINOR_def)

lemma cmd_subst_Nil: "cmd_subst [] = []"
  by (simp add: cmd_subst_def)

lemma cmd_subst_empty_iff:
  "cmd_subst cs = [] \<longleftrightarrow> (\<forall>x\<in>set cs. x = CHR 0x0A \<or> x = CHR 0x00)"
  by (auto simp: cmd_subst_def dropWhile_eq_Nil_conv)

lemma cmd_subst_Cons:
  "cmd_subst (c # cs) =
     (if c = CHR 0x00 then cmd_subst cs
      else (case cmd_subst cs of
              [] \<Rightarrow> if c = CHR 0x0A then [] else [c]
            | y # ys \<Rightarrow> c # y # ys))"
proof (cases "c = CHR 0x00")
  case True
  then show ?thesis by (simp add: cmd_subst_def)
next
  case False
  let ?f = "filter (\<lambda>c. c \<noteq> CHR 0x00) cs"
  show ?thesis
  proof (cases "cmd_subst cs")
    case Nil
    then have "\<forall>x\<in>set ?f. x = CHR 0x0A"
      by (auto simp: cmd_subst_empty_iff)
    then have "cmd_subst (c # cs) = (if c = CHR 0x0A then [] else [c])"
      using False by (simp add: cmd_subst_def dropWhile_append)
    with Nil False show ?thesis by simp
  next
    case (Cons y ys)
    then have "\<not> (\<forall>x\<in>set ?f. x = CHR 0x0A)"
      using cmd_subst_empty_iff [of cs] by auto
    then have "cmd_subst (c # cs) = c # cmd_subst cs"
      using False by (simp add: cmd_subst_def dropWhile_append)
    with Cons False show ?thesis by simp
  qed
qed

lemma python_is_supported_iff:
  "fst (python_is_supported s p) = 0 \<longleftrightarrow>
     test_x s p \<and> fst (python_version s p) = 0
     \<and> cmd_subst (snd (python_version s p)) = required_version"
  by (simp add: python_is_supported_def Let_def case_prod_beta)

lemma python_is_supported_probes:
  "fst (python_is_supported s p) = 0 \<Longrightarrow>
   snd (python_is_supported s p) = [Test_x p, Python_version p]"
  by (simp add: python_is_supported_def Let_def case_prod_beta split: if_splits)

lemma runtime_is_ready_iff_aux:
  "fst (runtime_is_ready h s) = 0 \<longleftrightarrow>
     test_x s (RUNTIME_PYTHON h) \<and> test_f s (marker_file h)
     \<and> cmd_subst (cat s (marker_file h)) = required_version
     \<and> fst (python_is_supported s (RUNTIME_PYTHON h)) = 0"
  by (simp add: runtime_is_ready_def Let_def case_prod_beta)

lemma runtime_is_ready_probes:
  "fst (runtime_is_ready h s) = 0 \<Longrightarrow>
   snd (runtime_is_ready h s)
     = [Test_x (RUNTIME_PYTHON h), Test_f (marker_file h), Cat (marker_file h),
        Test_x (RUNTIME_PYTHON h), Python_version (RUNTIME_PYTHON h)]"
  by (simp add: runtime_is_ready_def Let_def case_prod_beta python_is_supported_probes
           split: if_splits)

section \<open>The provisioner: properties\<close>

text \<open>
  C3 (as amended). \<^verbatim>\<open>runtime_is_ready\<close> returns 0 if and only if the runtime's interpreter
  passes \<^verbatim>\<open>-x\<close>, the marker is a regular file, the marker's content (as a command
  substitution reads it: without NUL bytes and without the newlines at its end) is the
  required \<^verbatim>\<open>major.minor\<close>, and the interpreter, run for its version, ends with status 0
  and prints that same version. The required version is \<^verbatim>\<open>3.12\<close>.
\<close>

theorem runtime_is_ready_iff:
  "(fst (runtime_is_ready h s) = 0 \<longleftrightarrow>
      test_x s (RUNTIME_PYTHON h)
      \<and> test_f s (marker_file h)
      \<and> cmd_subst (cat s (marker_file h)) = required_version
      \<and> fst (python_version s (RUNTIME_PYTHON h)) = 0
      \<and> cmd_subst (snd (python_version s (RUNTIME_PYTHON h))) = required_version)
   \<and> required_version = ''3.12''
   \<and> RUNTIME_PYTHON h = HOME h @ ''/Library/Application Support/ClickSpeak/runtime/bin/python3''
   \<and> marker_file h
       = HOME h @ ''/Library/Application Support/ClickSpeak/runtime/.clickspeak-runtime''"
  by (auto simp: runtime_is_ready_iff_aux python_is_supported_iff required_version_text
        RUNTIME_PYTHON_def marker_file_def RUNTIME_DIR_def RUNTIME_MARKER_FILE_def)

lemma host_u_paths:
  "RUNTIME_DIR host_u = ''/Users/u/Library/Application Support/ClickSpeak/runtime''"
  "RUNTIME_PYTHON host_u = ''/Users/u/Library/Application Support/ClickSpeak/runtime/bin/python3''"
  "marker_file host_u
     = ''/Users/u/Library/Application Support/ClickSpeak/runtime/.clickspeak-runtime''"
  "PROJECT_DIR host_u = ''/Users/u/clickspeak''"
  by (simp_all add: RUNTIME_DIR_def RUNTIME_PYTHON_def marker_file_def RUNTIME_MARKER_FILE_def
        host_u_def)

lemma cmd_subst_examples:
  "cmd_subst (''3.12'' @ newline) = ''3.12''"
  "cmd_subst (''3.11'' @ newline) = ''3.11''"
  "cmd_subst (''3.9'' @ newline) = ''3.9''"
  "cmd_subst (''/opt/homebrew/bin/python3.12'' @ newline) = ''/opt/homebrew/bin/python3.12''"
  "cmd_subst (''/usr/bin/python3'' @ newline) = ''/usr/bin/python3''"
  by (simp_all add: cmd_subst_Cons cmd_subst_Nil newline_def)

lemmas cmd_subst_eval = cmd_subst_Cons cmd_subst_Nil newline_def

lemma fs_ready_fields:
  "test_x fs_ready (RUNTIME_PYTHON host_u)"
  "test_f fs_ready (marker_file host_u)"
  "cat fs_ready (marker_file host_u) = ''3.12'' @ newline"
  "python_version fs_ready (RUNTIME_PYTHON host_u) = (0, ''3.12'' @ newline)"
  by (simp_all add: fs_ready_def)

lemma fs_stale_fields:
  "test_x fs_stale (RUNTIME_PYTHON host_u)"
  "test_f fs_stale (marker_file host_u)"
  "cat fs_stale (marker_file host_u) = ''3.11'' @ newline"
  "python_version fs_stale (RUNTIME_PYTHON host_u) = (0, ''3.12'' @ newline)"
  by (simp_all add: fs_stale_def fs_ready_def)

lemma fs_nul_fields:
  "test_x fs_nul (RUNTIME_PYTHON host_u)"
  "test_f fs_nul (marker_file host_u)"
  "cat fs_nul (marker_file host_u) = ''3.12'' @ [CHR 0x00] @ newline"
  "python_version fs_nul (RUNTIME_PYTHON host_u) = (0, ''3.12'' @ newline)"
  by (simp_all add: fs_nul_def fs_ready_def)

lemma fs_exit_1_fields:
  "test_x fs_exit_1 (RUNTIME_PYTHON host_u)"
  "test_f fs_exit_1 (marker_file host_u)"
  "cat fs_exit_1 (marker_file host_u) = ''3.12'' @ newline"
  "python_version fs_exit_1 (RUNTIME_PYTHON host_u) = (1, ''3.12'' @ newline)"
  by (simp_all add: fs_exit_1_def fs_ready_def)

theorem runtime_is_ready_iff_witness:
  "fst (runtime_is_ready host_u fs_ready) = 0
   \<and> cmd_subst (cat fs_nul (marker_file host_u)) = ''3.12''
   \<and> fst (runtime_is_ready host_u fs_nul) = 0
   \<and> cmd_subst (cat fs_stale (marker_file host_u)) = ''3.11''
   \<and> fst (runtime_is_ready host_u fs_stale) \<noteq> 0"
  using runtime_is_ready_iff [of host_u fs_ready, THEN conjunct1]
        runtime_is_ready_iff [of host_u fs_nul, THEN conjunct1]
        runtime_is_ready_iff [of host_u fs_stale, THEN conjunct1]
  by (simp add: fs_ready_fields fs_nul_fields fs_stale_fields cmd_subst_eval
        required_version_text)

text \<open>
  C3 as stated fails: the interpreter of this installation passes \<^verbatim>\<open>-x\<close>, the marker file
  exists and holds \<^verbatim>\<open>3.12\<close>, and the interpreter prints \<^verbatim>\<open>3.12\<close>, but its run ends with status
  1 and \<^verbatim>\<open>runtime_is_ready\<close> returns 1.
\<close>

theorem printed_version_with_status_1_is_not_ready:
  "test_x fs_exit_1 (RUNTIME_PYTHON host_u)
   \<and> test_f fs_exit_1 (marker_file host_u)
   \<and> cmd_subst (cat fs_exit_1 (marker_file host_u)) = ''3.12''
   \<and> python_version fs_exit_1 (RUNTIME_PYTHON host_u) = (1, ''3.12'' @ newline)
   \<and> cmd_subst (snd (python_version fs_exit_1 (RUNTIME_PYTHON host_u))) = ''3.12''
   \<and> fst (runtime_is_ready host_u fs_exit_1) = 1"
  by (simp add: runtime_is_ready_def python_is_supported_def Let_def fs_exit_1_fields
        cmd_subst_eval required_version_text)

text \<open>
  C4. When the installation is ready, \<^verbatim>\<open>ensure_runtime\<close> returns 0 and leaves the file system
  as it was: it runs no command at all, prints nothing, and only looks: two \<^verbatim>\<open>-x\<close> tests,
  one \<^verbatim>\<open>-f\<close> test, one \<^verbatim>\<open>cat\<close> of the marker, and one run of the runtime's interpreter for its
  version. So is every further call.
\<close>

theorem ensure_runtime_ready_is_noop:
  assumes "fst (runtime_is_ready h s) = 0"
  shows "ensure_runtime h t s =
           \<lparr>status = 0, final = s, printed = [],
            probed = [Test_x (RUNTIME_PYTHON h), Test_f (marker_file h), Cat (marker_file h),
                      Test_x (RUNTIME_PYTHON h), Python_version (RUNTIME_PYTHON h)],
            ran = []\<rparr>
       \<and> ensure_runtime h t (final (ensure_runtime h t s)) = ensure_runtime h t s"
proof -
  have "ensure_runtime h t s =
           \<lparr>status = 0, final = s, printed = [],
            probed = [Test_x (RUNTIME_PYTHON h), Test_f (marker_file h), Cat (marker_file h),
                      Test_x (RUNTIME_PYTHON h), Python_version (RUNTIME_PYTHON h)],
            ran = []\<rparr>"
    using assms runtime_is_ready_probes [OF assms]
    by (simp add: ensure_runtime_def case_prod_beta)
  then show ?thesis by simp
qed

theorem ensure_runtime_ready_is_noop_witness:
  "fst (runtime_is_ready host_u fs_ready) = 0
   \<and> status (ensure_runtime host_u tools_ok fs_ready) = 0
   \<and> final (ensure_runtime host_u tools_ok fs_ready) = fs_ready
   \<and> ran (ensure_runtime host_u tools_ok fs_ready) = []
   \<and> probed (ensure_runtime host_u tools_ok fs_ready)
       = [Test_x (RUNTIME_PYTHON host_u), Test_f (marker_file host_u), Cat (marker_file host_u),
          Test_x (RUNTIME_PYTHON host_u), Python_version (RUNTIME_PYTHON host_u)]"
proof -
  have r: "fst (runtime_is_ready host_u fs_ready) = 0"
    by (simp add: runtime_is_ready_iff_aux python_is_supported_iff fs_ready_fields
          cmd_subst_eval required_version_text)
  from ensure_runtime_ready_is_noop [OF r, of tools_ok] r show ?thesis
    by simp
qed

lemma try_candidates_find:
  "fst (try_candidates s cs)
     = (case find (\<lambda>c. fst (python_is_supported s c) = 0) cs of None \<Rightarrow> 1 | Some c \<Rightarrow> 0)
   \<and> fst (snd (try_candidates s cs))
     = (case find (\<lambda>c. fst (python_is_supported s c) = 0) cs of None \<Rightarrow> [] | Some c \<Rightarrow> echo c)"
  by (induction cs) (simp_all add: Let_def case_prod_beta)

lemma resolve_host_python_find:
  "fst (resolve_host_python h s)
     = (case find (\<lambda>c. fst (python_is_supported s c) = 0) (candidates h) of
          None \<Rightarrow> 1 | Some c \<Rightarrow> 0)"
  "fst (snd (resolve_host_python h s))
     = (case find (\<lambda>c. fst (python_is_supported s c) = 0) (candidates h) of
          None \<Rightarrow> [] | Some c \<Rightarrow> echo c)"
  by (simp_all add: resolve_host_python_def case_prod_beta try_candidates_find)

lemma unavailable_message_text:
  "unavailable_message
     = [''[clickspeak] Could not locate a supported Python 3.12 runtime.'',
        ''[clickspeak] Install Python 3.12 and re-run.'']"
  by (simp add: unavailable_message_def REQUIRED_PYTHON_MAJOR_def REQUIRED_PYTHON_MINOR_def)

lemma ensure_runtime_no_bootstrap:
  assumes "fst (runtime_is_ready h s) \<noteq> 0"
    and "cmd_subst (fst (snd (resolve_host_python h s))) = []"
  shows "status (ensure_runtime h t s) = 1" "final (ensure_runtime h t s) = s"
    "printed (ensure_runtime h t s) = echo_lines t s unavailable_message"
    "ran (ensure_runtime h t s) = []"
  using assms
  by (simp_all add: ensure_runtime_def case_prod_beta Let_def)

text \<open>
  The selection: \<^verbatim>\<open>resolve_host_python\<close> returns 0 exactly when a candidate is supported, and
  then prints the first one that is, by \<^verbatim>\<open>echo\<close>. With none supported and an installation
  that is not ready, \<^verbatim>\<open>ensure_runtime\<close> changes nothing, runs no command of the rebuild,
  echoes the two lines that name Python 3.12 and returns 1.
\<close>

lemma no_candidate_is_unavailable:
  assumes "fst (runtime_is_ready h s) \<noteq> 0"
    and "find (\<lambda>c. fst (python_is_supported s c) = 0) (candidates h) = None"
  shows "fst (resolve_host_python h s) = 1"
    and "status (ensure_runtime h t s) = 1"
    and "final (ensure_runtime h t s) = s"
    and "ran (ensure_runtime h t s) = []"
    and "printed (ensure_runtime h t s)
           = echo_lines t s [''[clickspeak] Could not locate a supported Python 3.12 runtime.'',
                             ''[clickspeak] Install Python 3.12 and re-run.'']"
proof -
  from assms(2) have out: "cmd_subst (fst (snd (resolve_host_python h s))) = []"
    by (simp add: resolve_host_python_find cmd_subst_Nil)
  from assms(2) show "fst (resolve_host_python h s) = 1"
    by (simp add: resolve_host_python_find)
  show "status (ensure_runtime h t s) = 1"
    and "final (ensure_runtime h t s) = s"
    and "ran (ensure_runtime h t s) = []"
    and "printed (ensure_runtime h t s)
           = echo_lines t s [''[clickspeak] Could not locate a supported Python 3.12 runtime.'',
                             ''[clickspeak] Install Python 3.12 and re-run.'']"
    using ensure_runtime_no_bootstrap [OF assms(1) out, of t]
    by (simp_all only: unavailable_message_text)
qed

lemma host_dash_n_fields:
  "CLICKSPEAK_HOST_PYTHON host_dash_n = Some ''-n''"
  "command_v host_dash_n ''python3.12'' = ''/opt/homebrew/bin/python3.12'' @ newline"
  "command_v host_dash_n ''python3'' = ''/usr/bin/python3'' @ newline"
  "RUNTIME_PYTHON host_dash_n = RUNTIME_PYTHON host_u"
  "marker_file host_dash_n = marker_file host_u"
  by (simp_all add: host_dash_n_def host_u_def RUNTIME_DIR_def RUNTIME_PYTHON_def
        marker_file_def)

lemma fs_dash_n_fields:
  "\<not> test_x fs_dash_n (RUNTIME_PYTHON host_u)"
  "test_x fs_dash_n ''-n''"
  "python_version fs_dash_n ''-n'' = (0, ''3.12'' @ newline)"
  by (simp_all add: fs_dash_n_def fs_fresh_def host_u_paths)

text \<open>
  C6, at \<^verbatim>\<open>CLICKSPEAK_HOST_PYTHON=-n\<close> with an installation that is not ready. The override is
  the first candidate, it passes \<^verbatim>\<open>-x\<close>, runs with status 0 and prints \<^verbatim>\<open>3.12\<close>, and
  \<^verbatim>\<open>resolve_host_python\<close> accepts it and returns 0. But \<^verbatim>\<open>echo "-n"\<close> prints nothing, so the
  caller reads an empty name: \<^verbatim>\<open>ensure_runtime\<close> runs no command of the rebuild, prints the
  two lines about a missing Python 3.12 and returns 1, with a qualifying candidate and
  two more behind it.
\<close>

theorem option_like_override_is_not_used:
  "candidates host_dash_n = [''-n'', ''/opt/homebrew/bin/python3.12'', ''/usr/bin/python3'']
   \<and> fst (runtime_is_ready host_dash_n fs_dash_n) \<noteq> 0
   \<and> fst (python_is_supported fs_dash_n ''-n'') = 0
   \<and> find (\<lambda>c. fst (python_is_supported fs_dash_n c) = 0) (candidates host_dash_n) = Some ''-n''
   \<and> fst (resolve_host_python host_dash_n fs_dash_n) = 0
   \<and> fst (snd (resolve_host_python host_dash_n fs_dash_n)) = []
   \<and> status (ensure_runtime host_dash_n tools_ok fs_dash_n) = 1
   \<and> final (ensure_runtime host_dash_n tools_ok fs_dash_n) = fs_dash_n
   \<and> ran (ensure_runtime host_dash_n tools_ok fs_dash_n) = []
   \<and> printed (ensure_runtime host_dash_n tools_ok fs_dash_n)
       = [''[clickspeak] Could not locate a supported Python 3.12 runtime.'',
          ''[clickspeak] Install Python 3.12 and re-run.'']"
proof -
  have c: "candidates host_dash_n
             = [''-n'', ''/opt/homebrew/bin/python3.12'', ''/usr/bin/python3'']"
    by (simp add: candidates_def host_dash_n_fields cmd_subst_eval)
  have nr: "fst (runtime_is_ready host_dash_n fs_dash_n) \<noteq> 0"
    by (simp add: runtime_is_ready_iff_aux host_dash_n_fields fs_dash_n_fields)
  have sup: "fst (python_is_supported fs_dash_n ''-n'') = 0"
    by (simp add: python_is_supported_iff fs_dash_n_fields cmd_subst_eval required_version_text)
  have f: "find (\<lambda>c. fst (python_is_supported fs_dash_n c) = 0) (candidates host_dash_n)
             = Some ''-n''"
    by (simp add: c sup)
  have e: "echo ''-n'' = []"
    by (simp add: echo_def)
  have r: "fst (resolve_host_python host_dash_n fs_dash_n) = 0"
    "fst (snd (resolve_host_python host_dash_n fs_dash_n)) = []"
    by (simp_all add: resolve_host_python_find f e)
  have b: "cmd_subst (fst (snd (resolve_host_python host_dash_n fs_dash_n))) = []"
    by (simp add: r cmd_subst_Nil)
  note u = ensure_runtime_no_bootstrap [OF nr b, of tools_ok]
  from c nr sup f r u show ?thesis
    by (simp add: unavailable_message_text tools_ok_def)
qed

subsection \<open>Interrupted rebuilds\<close>


lemma not_ready_no_marker: "\<not> test_f s (marker_file h) \<Longrightarrow> fst (runtime_is_ready h s) \<noteq> 0"
  by (simp add: runtime_is_ready_iff_aux)































end
